theory Spec2Isabelle
  imports Main "HOL-Library.Char_ord" "HOL-Library.List_Lexorder" "HOL-Library.Product_Lexorder"
begin

chapter \<open>The stepwise execution tracer of a.py\<close>

text \<open>
  A shallow embedding of the tracer core of \<^verbatim>\<open>src/a.py\<close>: the traceback sanitizer, the safe
  value renderer, the object-graph extractor, the call event log, the console-input mock, the step
  recorder and the run of one session.

  Conventions of the embedding.
  \<^item> A Python \<^verbatim>\<open>str\<close> is a \<^typ>\<open>string\<close>; a \<^typ>\<open>char\<close> stands for one code point below
    256. Code points above 255 are outside the modelled alphabet.
  \<^item> \<^verbatim>\<open>id(obj)\<close> is a natural number, and the interpreter's object store is a total function from
    identities to objects: a reference never dangles.
  \<^item> A Python \<^verbatim>\<open>dict\<close> that is iterated is an association list in iteration order.
  \<^item> An exception is a value of type \<open>exn\<close>, and a computation that may raise returns
    \<open>exn + 'a\<close> with \<open>Inl\<close> for the exception.
  \<^item> What the interpreter's builtins return for an object (its \<^verbatim>\<open>repr\<close>, its type name) is data
    of the object in the store.
\<close>

section \<open>Strings\<close>

definition startswith :: "string \<Rightarrow> string \<Rightarrow> bool" where
  "startswith s p = (take (length p) s = p)"

text \<open>\<^verbatim>\<open>sub in s\<close> for strings.\<close>

fun contains :: "string \<Rightarrow> string \<Rightarrow> bool" where
  "contains [] sub = (sub = [])"
| "contains (c # cs) sub = (startswith (c # cs) sub \<or> contains cs sub)"

text \<open>\<^verbatim>\<open>sep.join(xs)\<close>.\<close>

fun join :: "string \<Rightarrow> string list \<Rightarrow> string" where
  "join sep [] = []"
| "join sep [x] = x"
| "join sep (x # y # ys) = x @ sep @ join sep (y # ys)"

text \<open>
  The characters \<^verbatim>\<open>str.splitlines\<close> breaks a line at (below code point 256): line feed, vertical
  tab, form feed, carriage return, the separators 0x1c to 0x1e and NEL 0x85.
\<close>

definition is_linebreak :: "char \<Rightarrow> bool" where
  "is_linebreak c = (of_char c \<in> {10, 11, 12, 13, 28, 29, 30, 133 :: nat})"

text \<open>
  \<^verbatim>\<open>splitlines_from cur s\<close> reads \<open>s\<close> with the line \<open>cur\<close> in progress; a carriage return followed
  by a line feed is one break, and a final break opens no empty line.
\<close>

fun splitlines_from :: "string \<Rightarrow> string \<Rightarrow> string list" where
  "splitlines_from cur [] = (if cur = [] then [] else [cur])"
| "splitlines_from cur (c # cs) =
     (if c = CHR 0x0D \<and> cs \<noteq> [] \<and> hd cs = CHR 0x0A then cur # splitlines_from [] (tl cs)
      else if is_linebreak c then cur # splitlines_from [] cs
      else splitlines_from (cur @ [c]) cs)"

definition splitlines :: "string \<Rightarrow> string list" where
  "splitlines s = splitlines_from [] s"

text \<open>The whitespace \<^verbatim>\<open>str.strip()\<close> removes (below code point 256).\<close>

definition is_space :: "char \<Rightarrow> bool" where
  "is_space c = (of_char c \<in> {9, 10, 11, 12, 13, 28, 29, 30, 31, 32, 133, 160 :: nat})"

definition strip :: "string \<Rightarrow> string" where
  "strip s = rev (dropWhile is_space (rev (dropWhile is_space s)))"

text \<open>\<^verbatim>\<open>os.path.basename\<close> of \<^verbatim>\<open>posixpath\<close>: what follows the last slash.\<close>

definition basename :: "string \<Rightarrow> string" where
  "basename p = rev (takeWhile (\<lambda>c. c \<noteq> CHR ''/'') (rev p))"

text \<open>\<^verbatim>\<open>str.lower()\<close> on the letters A to Z and the upper-case letters of Latin-1.\<close>

definition lower_char :: "char \<Rightarrow> char" where
  "lower_char c =
     (let n = (of_char c :: nat)
      in if (65 \<le> n \<and> n \<le> 90) \<or> (192 \<le> n \<and> n \<le> 222 \<and> n \<noteq> 215) then char_of (n + 32) else c)"

definition lower :: "string \<Rightarrow> string" where
  "lower s = map lower_char s"

text \<open>\<^verbatim>\<open>s.replace("\\", "/")\<close>.\<close>

definition backslash_to_slash :: "string \<Rightarrow> string" where
  "backslash_to_slash s = map (\<lambda>c. if c = CHR 0x5C then CHR ''/'' else c) s"

definition is_digit :: "char \<Rightarrow> bool" where
  "is_digit c = (48 \<le> (of_char c :: nat) \<and> (of_char c :: nat) \<le> 57)"

definition digit_char :: "nat \<Rightarrow> char" where
  "digit_char n = (if n < 10 then char_of (48 + n) else char_of (87 + n))"

text \<open>\<^verbatim>\<open>str(n)\<close> of a natural number.\<close>

function dec :: "nat \<Rightarrow> string" where
  "dec n = (if n < 10 then [digit_char n] else dec (n div 10) @ [digit_char (n mod 10)])"
  by pat_completeness auto
termination
  by (relation "measure id") auto

declare dec.simps [simp del]

function hex_digits :: "nat \<Rightarrow> string" where
  "hex_digits n = (if n < 16 then [digit_char n] else hex_digits (n div 16) @ [digit_char (n mod 16)])"
  by pat_completeness auto
termination
  by (relation "measure id") auto

declare hex_digits.simps [simp del]

text \<open>\<^verbatim>\<open>hex(n)\<close> and the format \<^verbatim>\<open>{n:x}\<close>.\<close>

definition hex :: "nat \<Rightarrow> string" where
  "hex n = ''0x'' @ hex_digits n"

text \<open>
  \<^verbatim>\<open>repr\<close> of a \<^verbatim>\<open>str\<close>: double quotes when the text has a single quote and no double quote,
  single quotes otherwise; the backslash, the quote, tab, line feed and carriage return are
  escaped, and the code points that are not printable are written \<^verbatim>\<open>\xhh\<close>.
\<close>

definition printable :: "char \<Rightarrow> bool" where
  "printable c = (let n = (of_char c :: nat) in (32 \<le> n \<and> n < 127) \<or> (160 < n \<and> n \<noteq> 173))"

definition hex2 :: "nat \<Rightarrow> string" where
  "hex2 n = [digit_char (n div 16), digit_char (n mod 16)]"

definition escape_char :: "(char \<Rightarrow> bool) \<Rightarrow> char \<Rightarrow> char \<Rightarrow> string" where
  "escape_char keep q c =
     (if c = CHR 0x5C then [CHR 0x5C, CHR 0x5C]
      else if c = q then [CHR 0x5C, q]
      else if c = CHR 0x09 then [CHR 0x5C, CHR ''t'']
      else if c = CHR 0x0A then [CHR 0x5C, CHR ''n'']
      else if c = CHR 0x0D then [CHR 0x5C, CHR ''r'']
      else if keep c then [c]
      else [CHR 0x5C, CHR ''x''] @ hex2 (of_char c))"

definition quote_for :: "string \<Rightarrow> char" where
  "quote_for s = (if CHR 0x27 \<in> set s \<and> CHR 0x22 \<notin> set s then CHR 0x22 else CHR 0x27)"

definition str_repr :: "string \<Rightarrow> string" where
  "str_repr s = (let q = quote_for s in [q] @ concat (map (escape_char printable q) s) @ [q])"

definition bytes_repr :: "string \<Rightarrow> string" where
  "bytes_repr s =
     (let q = quote_for s
      in ''b'' @ [q] @ concat (map (escape_char (\<lambda>c. 32 \<le> (of_char c :: nat) \<and> (of_char c :: nat) < 127) q) s) @ [q])"

section \<open>The traceback sanitizer\<close>

text \<open>
  What the sanitizer and the tracer take from the host: \<^verbatim>\<open>os.path.abspath\<close> (\<open>None\<close> when it
  raises), the absolute path the sanitizer computes for the file \<^verbatim>\<open>a.py\<close> beside the script,
  the absolute path of the file that defines the tracer class, and the absolute
  \<^verbatim>\<open>sys.prefix\<close>. Paths are those of \<^verbatim>\<open>posixpath\<close>.
\<close>

record env =
  abspath :: "string \<Rightarrow> string option"
  debugger_script_abs :: string
  debugger_script_abs_path :: string
  python_std_lib_prefix :: string

text \<open>
  The second group of the pattern, \<^verbatim>\<open>(, line \d+, in .*)?\<close>, on what follows the closing quote:
  the text up to the end of the line when it starts as the group demands, and the empty text
  (the group took no part) otherwise.
\<close>

definition rest_of_line_group :: "string \<Rightarrow> string" where
  "rest_of_line_group r =
     (if startswith r '', line '' then
        (let ds = takeWhile is_digit (drop 7 r); after = dropWhile is_digit (drop 7 r)
         in if ds \<noteq> [] \<and> startswith after '', in ''
            then takeWhile (\<lambda>c. c \<noteq> CHR 0x0A) r else [])
      else [])"

text \<open>
  \<^verbatim>\<open>re.search(r'File "([^"]+)"(, line \d+, in .*)?', line)\<close>: the leftmost place where
  \<^verbatim>\<open>File "\<close> is followed by at least one character other than the quote and then by a quote.
  The result is the path (group 1) and \<^verbatim>\<open>rest_of_line\<close>.
\<close>

fun path_match :: "string \<Rightarrow> (string \<times> string) option" where
  "path_match [] = None"
| "path_match (c # cs) =
     (let s = c # cs; r = drop 6 s;
          p = takeWhile (\<lambda>x. x \<noteq> CHR 0x22) r; q = dropWhile (\<lambda>x. x \<noteq> CHR 0x22) r
      in if startswith s (''File '' @ [CHR 0x22]) \<and> p \<noteq> [] \<and> q \<noteq> []
         then Some (p, rest_of_line_group (tl q))
         else path_match cs)"

definition is_file_line :: "string \<Rightarrow> bool" where
  "is_file_line line = startswith (strip line) (''File '' @ [CHR 0x22])"

text \<open>The label that replaces the path of a frame-location line.\<close>

definition sanitized_filepath_display :: "env \<Rightarrow> string \<Rightarrow> string" where
  "sanitized_filepath_display E filepath_raw =
     (let filename = basename filepath_raw
      in if filepath_raw = ''<string>'' then ''Your Code''
         else case abspath E filepath_raw of
                None \<Rightarrow> ''<External Code ('' @ filename @ '')> (Path Error)''
              | Some abs_filepath \<Rightarrow>
                  if abs_filepath = debugger_script_abs E
                  then ''<Debugger Internals ('' @ filename @ '')>''
                  else if startswith abs_filepath (python_std_lib_prefix E)
                          \<or> contains filename ''bdb.py''
                          \<or> contains (backslash_to_slash (lower abs_filepath)) ''flask''
                  then ''<''
                       @ (if contains filename ''bdb.py'' then ''Python Debugger Library''
                          else if contains (backslash_to_slash (lower abs_filepath)) ''flask''
                          then ''Flask Internals''
                          else ''Python System Library'')
                       @ '' ('' @ filename @ '')>''
                  else ''<External Code ('' @ filename @ '')>'')"

text \<open>
  The body of the loop for one line after the first: the line as it is kept, and whether it is
  the marker of user code.
\<close>

definition sanitize_line :: "env \<Rightarrow> string \<Rightarrow> string \<times> bool" where
  "sanitize_line E line =
     (if is_file_line line then
        (case path_match line of
           None \<Rightarrow> (line, False)
         | Some (filepath_raw, rest_of_line) \<Rightarrow>
             (''  File '' @ [CHR 0x22] @ sanitized_filepath_display E filepath_raw @ [CHR 0x22]
                @ rest_of_line,
              filepath_raw = ''<string>''))
      else (line, False))"

text \<open>
  The loop over the lines after the first, from the flag \<^verbatim>\<open>user_code_frames_started\<close>: the lines
  appended to \<^verbatim>\<open>sanitized_lines\<close> and the flag at the end.
\<close>

fun sanitize_loop :: "env \<Rightarrow> bool \<Rightarrow> bool \<Rightarrow> string list \<Rightarrow> string list \<times> bool" where
  "sanitize_loop E originated_in_user_code started [] = ([], started)"
| "sanitize_loop E originated_in_user_code started (l # ls) =
     (let (line, current_line_is_user_code_marker) = sanitize_line E l;
          started' = (if originated_in_user_code then started \<or> current_line_is_user_code_marker
                      else started);
          (out, fin) = sanitize_loop E originated_in_user_code started' ls
      in (if originated_in_user_code then (if started' then line # out else out) else line # out,
          fin))"

text \<open>
  \<^verbatim>\<open>sanitize_traceback_paths(traceback_str, originated_in_user_code)\<close>. When the caller says the
  failure began in user code and no line marks user code, the text is sanitized again with the
  flag off.
\<close>

definition sanitize_traceback_paths :: "env \<Rightarrow> string \<Rightarrow> bool \<Rightarrow> string" where
  "sanitize_traceback_paths E traceback_str originated_in_user_code =
     (let lines = splitlines traceback_str
      in if lines = [] then traceback_str
         else let (out, started) = sanitize_loop E originated_in_user_code False (tl lines)
              in if originated_in_user_code \<and> \<not> started \<and> length lines > 1
                 then join [CHR 0x0A] (hd lines # fst (sanitize_loop E False False (tl lines)))
                 else join [CHR 0x0A] (hd lines # out))"

section \<open>Objects and the object store\<close>

type_synonym addr = nat

datatype exn =
    RecursionError
  | TypeError
  | IndexError
  | AttributeError
  | OtherError string

text \<open>
  \<^verbatim>\<open>str(e)\<close> and \<^verbatim>\<open>repr(e)\<close> of an exception. The message of a \<^verbatim>\<open>RecursionError\<close> is the
  interpreter's: it ends with the place at which the limit was reached, and the renderer reaches
  it in a call of a builtin (\<^verbatim>\<open>isinstance\<close>, \<^verbatim>\<open>id\<close>, \<^verbatim>\<open>len\<close>).
\<close>

fun exn_str :: "exn \<Rightarrow> string" where
  "exn_str RecursionError = ''maximum recursion depth exceeded while calling a Python object''"
| "exn_str TypeError = ''unsupported operand''"
| "exn_str IndexError = ''tuple index out of range''"
| "exn_str AttributeError = ''attribute''"
| "exn_str (OtherError m) = m"

fun exn_name :: "exn \<Rightarrow> string" where
  "exn_name RecursionError = ''RecursionError''"
| "exn_name TypeError = ''TypeError''"
| "exn_name IndexError = ''IndexError''"
| "exn_name AttributeError = ''AttributeError''"
| "exn_name (OtherError m) = ''Exception''"

definition exn_repr :: "exn \<Rightarrow> string" where
  "exn_repr e = exn_name e @ ''('' @ str_repr (exn_str e) @ '')''"

text \<open>
  What a numpy array answers to the attribute reads of the extractor: \<^verbatim>\<open>shape\<close> (an object of the
  store, or no such attribute), \<^verbatim>\<open>str(dtype)\<close>, \<^verbatim>\<open>ndim\<close>, \<^verbatim>\<open>size\<close>, \<^verbatim>\<open>str(arr)\<close> and the
  elements of \<^verbatim>\<open>arr.flat\<close>.
\<close>

record ndarray =
  nd_shape :: "addr option"
  nd_dtype :: string
  nd_ndim :: string
  nd_size :: string
  nd_str :: "exn + string"
  nd_flat :: "exn + addr list"

text \<open>
  The shape of an object. \<open>Prim\<close> is an \<^verbatim>\<open>int\<close>, \<^verbatim>\<open>float\<close>, \<^verbatim>\<open>bool\<close>, \<^verbatim>\<open>complex\<close> or \<^verbatim>\<open>None\<close>. The
  containers are the builtin types themselves (subclasses of the builtin containers are not
  modelled) and hold the identities of their elements in iteration order. \<open>Instance\<close> is an
  instance of any other class, with the attributes the extractor reads (\<^verbatim>\<open>vars(obj)\<close> updated
  with the slots; a slot that cannot be read has no identity), or \<open>None\<close> when reading them
  raises. \<open>Opaque\<close> is a function, builtin, method, class, module, \<^verbatim>\<open>range\<close> or \<^verbatim>\<open>bytearray\<close>.
\<close>

datatype pyval =
    Prim
  | Str string
  | Bytes string
  | List "addr list"
  | Tuple "addr list"
  | Deque "addr list"
  | Set "addr list"
  | Dict "(addr \<times> addr) list"
  | Ndarray ndarray
  | Instance "(string \<times> addr option) list option"
  | Opaque

record pyobj =
  val :: pyval
  type_name :: string
  type_module :: "string option"
  type_str :: string
  repr_text :: "exn + string"
  is_callable :: bool
  is_type_or_module :: bool
  own_module :: "string option"
  own_name :: "string option"

type_synonym heap = "addr \<Rightarrow> pyobj"

text \<open>\<^verbatim>\<open>repr(obj)\<close>: computed for text and bytes, the object's own answer otherwise.\<close>

definition py_repr :: "heap \<Rightarrow> addr \<Rightarrow> exn + string" where
  "py_repr h a =
     (case val (h a) of
        Str s \<Rightarrow> Inr (str_repr s)
      | Bytes b \<Rightarrow> Inr (bytes_repr b)
      | _ \<Rightarrow> repr_text (h a))"

text \<open>Mapping a function that may raise over a list; the first exception ends it.\<close>

fun map_err :: "('a \<Rightarrow> exn + 'b) \<Rightarrow> 'a list \<Rightarrow> exn + 'b list" where
  "map_err f [] = Inr []"
| "map_err f (x # xs) =
     (case f x of
        Inl e \<Rightarrow> Inl e
      | Inr y \<Rightarrow> (case map_err f xs of Inl e \<Rightarrow> Inl e | Inr ys \<Rightarrow> Inr (y # ys)))"

section \<open>The safe value renderer\<close>

text \<open>\<^verbatim>\<open>len(obj)\<close> of a list, tuple, dict, deque or set.\<close>

fun container_len :: "pyval \<Rightarrow> nat option" where
  "container_len (List xs) = Some (length xs)"
| "container_len (Tuple xs) = Some (length xs)"
| "container_len (Deque xs) = Some (length xs)"
| "container_len (Set xs) = Some (length xs)"
| "container_len (Dict kvs) = Some (length kvs)"
| "container_len _ = None"

text \<open>The arrow U+2794 of the reference marker, written as its three UTF-8 code units.\<close>

definition arrow :: string where
  "arrow = [CHR 0xE2, CHR 0x9E, CHR 0x94]"

text \<open>The reference marker of \<^verbatim>\<open>_safe_repr\<close>: it carries the identity of its target.\<close>

definition ref_indicator :: "heap \<Rightarrow> addr \<Rightarrow> string" where
  "ref_indicator h a =
     (let obj_type_name =
            (case container_len (val (h a)) of
               Some n \<Rightarrow> type_name (h a) @ ''['' @ dec n @ '']''
             | None \<Rightarrow> type_name (h a))
      in ''<span class='' @ [CHR 0x22] @ ''ref-indicator'' @ [CHR 0x22] @ '' data-ref-id='' @ [CHR 0x22]
           @ dec a @ [CHR 0x22] @ '' title='' @ [CHR 0x22] @ ''Ref to '' @ obj_type_name @ '' @ ''
           @ hex a @ [CHR 0x22] @ ''>'' @ arrow @ '' '' @ obj_type_name @ ''</span>'')"

text \<open>\<^verbatim>\<open>s[:n] + '...' if len(s) > n else s\<close>.\<close>

definition clip :: "nat \<Rightarrow> string \<Rightarrow> string" where
  "clip n s = (if length s > n then take n s @ ''...'' else s)"

definition ellipsis :: "nat \<Rightarrow> string" where
  "ellipsis n = (if n > 3 then '', ... ('' @ dec n @ '')'' else '''')"

text \<open>
  The key \<^verbatim>\<open>str(type(x)) + repr(x)\<close> by which \<^verbatim>\<open>_safe_repr\<close> sorts the elements of a set. A
  \<^verbatim>\<open>TypeError\<close> leaves the elements in iteration order; any other exception propagates.
\<close>

definition sorted_for_preview :: "heap \<Rightarrow> addr list \<Rightarrow> exn + addr list" where
  "sorted_for_preview h xs =
     (case map_err (\<lambda>x. case py_repr h x of Inl e \<Rightarrow> Inl e | Inr r \<Rightarrow> Inr (type_str (h x) @ r)) xs of
        Inl TypeError \<Rightarrow> Inr xs
      | Inl e \<Rightarrow> Inl e
      | Inr ks \<Rightarrow> Inr (map snd (sort_key fst (zip ks xs))))"

text \<open>
  \<^verbatim>\<open>_safe_repr(obj, max_len, context_id, tracked_ids)\<close>. The first argument is the number of
  nested calls the interpreter still allows (its recursion limit): at 0 the call raises
  \<^verbatim>\<open>RecursionError\<close>. \<^verbatim>\<open>tracked_ids=None\<close> is the empty set.
\<close>

fun safe_repr :: "nat \<Rightarrow> heap \<Rightarrow> nat \<Rightarrow> addr option \<Rightarrow> addr set \<Rightarrow> addr \<Rightarrow> exn + string" where
  "safe_repr 0 h max_len context_id tracked_ids a = Inl RecursionError"
| "safe_repr (Suc d) h max_len context_id tracked_ids a =
     (if Some a \<noteq> context_id \<and> a \<in> tracked_ids then Inr (ref_indicator h a)
      else case val (h a) of
        Prim \<Rightarrow> repr_text (h a)
      | Str s \<Rightarrow> Inr (str_repr (clip max_len s))
      | Bytes b \<Rightarrow> Inr (bytes_repr (clip max_len b))
      | List xs \<Rightarrow>
          (if xs = [] then Inr ''[]''
           else case map_err (\<lambda>x. safe_repr d h 25 context_id tracked_ids x) (take 3 xs) of
                  Inl e \<Rightarrow> Inl e
                | Inr rs \<Rightarrow> Inr (''['' @ join '', '' rs @ ellipsis (length xs) @ '']''))
      | Tuple xs \<Rightarrow>
          (if xs = [] then Inr ''()''
           else case map_err (\<lambda>x. safe_repr d h 25 context_id tracked_ids x) (take 3 xs) of
                  Inl e \<Rightarrow> Inl e
                | Inr rs \<Rightarrow>
                    Inr (''('' @ join '', '' rs @ (if length xs = 1 then '','' else '''')
                         @ ellipsis (length xs) @ '')''))
      | Deque xs \<Rightarrow>
          (if xs = [] then Inr ''deque([])''
           else case map_err (\<lambda>x. safe_repr d h 25 context_id tracked_ids x) (take 3 xs) of
                  Inl e \<Rightarrow> Inl e
                | Inr rs \<Rightarrow> Inr (''deque(['' @ join '', '' rs @ ellipsis (length xs) @ ''])''))
      | Set xs \<Rightarrow>
          (if xs = [] then Inr ''set()''
           else case sorted_for_preview h xs of
                  Inl e \<Rightarrow> Inl e
                | Inr ys \<Rightarrow>
                   (case map_err (\<lambda>x. safe_repr d h 25 context_id tracked_ids x) (take 3 ys) of
                      Inl e \<Rightarrow> Inl e
                    | Inr rs \<Rightarrow> Inr (''{'' @ join '', '' rs @ ellipsis (length xs) @ ''}'')))
      | Dict kvs \<Rightarrow>
          (if kvs = [] then Inr ''{}''
           else case map_err
                       (\<lambda>(k, v). case safe_repr d h 15 context_id tracked_ids k of
                                    Inl e \<Rightarrow> Inl e
                                  | Inr kr \<Rightarrow>
                                     (case safe_repr d h 25 context_id tracked_ids v of
                                        Inl e \<Rightarrow> Inl e
                                      | Inr vr \<Rightarrow> Inr (kr @ '': '' @ vr)))
                       (take 3 kvs) of
                  Inl e \<Rightarrow> Inl e
                | Inr rs \<Rightarrow> Inr (''{'' @ join '', '' rs @ ellipsis (length kvs) @ ''}''))
      | _ \<Rightarrow>
          Inr (clip max_len
                 (case repr_text (h a) of
                    Inl e \<Rightarrow> ''<'' @ type_name (h a) @ '' (repr error)>''
                  | Inr r \<Rightarrow> r)))"

declare safe_repr.simps [simp del]

section \<open>The object-graph extractor\<close>

definition system_module_prefixes :: "string list" where
  "system_module_prefixes =
     [''builtins'', ''__builtin__'', ''io.'', ''os.'', ''sys.'', ''re.'', ''json.'', ''datetime.'',
      ''math.'', ''socket.'', ''threading.'', ''queue.'', ''abc.'']"

text \<open>
  \<^verbatim>\<open>_is_visualizable_candidate\<close>: the five builtin containers are candidates; primitives, text,
  bytes, routines, classes and modules are not; any other object is one unless the module of
  its type starts with one of the system prefixes.
\<close>

definition is_visualizable_candidate :: "heap \<Rightarrow> addr \<Rightarrow> bool" where
  "is_visualizable_candidate h a =
     (case val (h a) of
        List xs \<Rightarrow> True
      | Tuple xs \<Rightarrow> True
      | Dict kvs \<Rightarrow> True
      | Deque xs \<Rightarrow> True
      | Set xs \<Rightarrow> True
      | Prim \<Rightarrow> False
      | Str s \<Rightarrow> False
      | Bytes b \<Rightarrow> False
      | Opaque \<Rightarrow> False
      | _ \<Rightarrow> (case type_module (h a) of
                None \<Rightarrow> True
              | Some m \<Rightarrow> \<not> list_ex (startswith m) system_module_prefixes))"

datatype viz_type = VObject | VArray | VDict | VNumpy | VDeque | VSet

fun viz_type_str :: "viz_type \<Rightarrow> string" where
  "viz_type_str VObject = ''object''"
| "viz_type_str VArray = ''array''"
| "viz_type_str VDict = ''dict''"
| "viz_type_str VNumpy = ''numpy_array''"
| "viz_type_str VDeque = ''deque''"
| "viz_type_str VSet = ''set''"

text \<open>The \<^verbatim>\<open>isinstance\<close> chain that chooses the \<^verbatim>\<open>vizType\<close> of a new node.\<close>

fun viz_type_of :: "pyval \<Rightarrow> viz_type" where
  "viz_type_of (List xs) = VArray"
| "viz_type_of (Tuple xs) = VArray"
| "viz_type_of (Dict kvs) = VDict"
| "viz_type_of (Ndarray nd) = VNumpy"
| "viz_type_of (Deque xs) = VDeque"
| "viz_type_of (Set xs) = VSet"
| "viz_type_of _ = VObject"

text \<open>
  An entry of \<^verbatim>\<open>object_info_map\<close>. The map is keyed by identity, and its \<^verbatim>\<open>'item'\<close> is the object
  of that identity, so the entry does not repeat it. The set \<^verbatim>\<open>'names'\<close> is a list without
  repetition; the extractor only reads it sorted.
\<close>

record obj_info =
  names :: "string list"
  oi_vizType :: viz_type
  is_direct :: bool
  visited_bfs :: bool

type_synonym info_map = "(addr \<times> obj_info) list"

text \<open>Assignment to the entry of an identity that is in the map; its position is kept.\<close>

fun update_info :: "addr \<Rightarrow> (obj_info \<Rightarrow> obj_info) \<Rightarrow> info_map \<Rightarrow> info_map" where
  "update_info a f [] = []"
| "update_info a f ((b, oi) # m) = (if a = b then (b, f oi) # m else (b, oi) # update_info a f m)"

record bfs_state =
  object_info_map :: info_map
  queue_bfs :: "addr list"
  visited_for_bfs_ids :: "addr set"
  items_processed_bfs :: nat

definition MAX_TRAVERSAL_ITEMS :: nat where
  "MAX_TRAVERSAL_ITEMS = 500"

definition MAX_COLLECTION_ITEMS_TRAVERSE :: nat where
  "MAX_COLLECTION_ITEMS_TRAVERSE = 30"

definition enqueue :: "addr \<Rightarrow> bfs_state \<Rightarrow> bfs_state" where
  "enqueue a st =
     (if a \<notin> visited_for_bfs_ids st
      then st\<lparr>queue_bfs := queue_bfs st @ [a], visited_for_bfs_ids := insert a (visited_for_bfs_ids st)\<rparr>
      else st)"

text \<open>One turn of the loop over \<^verbatim>\<open>variables.items()\<close> that seeds the work list.\<close>

definition seed_step :: "heap \<Rightarrow> string \<times> addr \<Rightarrow> bfs_state \<Rightarrow> bfs_state" where
  "seed_step h = (\<lambda>(var_name, a) st.
     if startswith var_name ''__'' \<or> \<not> is_visualizable_candidate h a then st
     else case map_of (object_info_map st) a of
            None \<Rightarrow>
              enqueue a
                (st\<lparr>object_info_map := object_info_map st @
                      [(a, \<lparr>names = [var_name], oi_vizType = viz_type_of (val (h a)),
                            is_direct = True, visited_bfs = False\<rparr>)]\<rparr>)
          | Some oi \<Rightarrow>
              st\<lparr>object_info_map :=
                   update_info a (\<lambda>oi. oi\<lparr>names := List.insert var_name (names oi), is_direct := True\<rparr>)
                     (object_info_map st)\<rparr>)"

definition seed :: "heap \<Rightarrow> (string \<times> addr) list \<Rightarrow> bfs_state" where
  "seed h variables =
     fold (seed_step h) variables
       \<lparr>object_info_map = [], queue_bfs = [], visited_for_bfs_ids = {}, items_processed_bfs = 0\<rparr>"

text \<open>What \<^verbatim>\<open>for x in obj\<close> yields; iterating an object that is no container raises.\<close>

fun elements_of :: "pyval \<Rightarrow> addr list" where
  "elements_of (List xs) = xs"
| "elements_of (Tuple xs) = xs"
| "elements_of (Deque xs) = xs"
| "elements_of (Set xs) = xs"
| "elements_of (Dict kvs) = map fst kvs"
| "elements_of _ = []"

fun items_of :: "pyval \<Rightarrow> (addr \<times> addr) list" where
  "items_of (Dict kvs) = kvs"
| "items_of _ = []"

fun attrs_of :: "pyval \<Rightarrow> (string \<times> addr option) list option" where
  "attrs_of (Instance r) = r"
| "attrs_of _ = Some []"

text \<open>
  The values of \<^verbatim>\<open>children_to_check\<close>, in the order of its items. A slot that cannot be read is
  the text \<^verbatim>\<open>'<slot inaccessible>'\<close>, here \<open>None\<close>. For a mapping only the candidates among the
  keys and values of its first 30 items are entered.
\<close>

definition children_to_check :: "heap \<Rightarrow> viz_type \<Rightarrow> addr \<Rightarrow> addr option list" where
  "children_to_check h vt a =
     (case vt of
        VObject \<Rightarrow> (case attrs_of (val (h a)) of None \<Rightarrow> [] | Some attrs \<Rightarrow> map snd attrs)
      | VArray \<Rightarrow> map Some (take MAX_COLLECTION_ITEMS_TRAVERSE (elements_of (val (h a))))
      | VDeque \<Rightarrow> map Some (take MAX_COLLECTION_ITEMS_TRAVERSE (elements_of (val (h a))))
      | VDict \<Rightarrow>
          concat (map (\<lambda>(k, v). (if is_visualizable_candidate h k then [Some k] else [])
                               @ (if is_visualizable_candidate h v then [Some v] else []))
                      (take MAX_COLLECTION_ITEMS_TRAVERSE (items_of (val (h a)))))
      | VSet \<Rightarrow> map Some (take MAX_COLLECTION_ITEMS_TRAVERSE (elements_of (val (h a))))
      | VNumpy \<Rightarrow> [])"

text \<open>The body of the loop over the children of the object taken from the queue.\<close>

definition visit_child :: "heap \<Rightarrow> addr option \<Rightarrow> bfs_state \<Rightarrow> bfs_state" where
  "visit_child h child st =
     (case child of
        None \<Rightarrow> st
      | Some c \<Rightarrow>
          if \<not> is_visualizable_candidate h c then st
          else enqueue c
                 (case map_of (object_info_map st) c of
                    None \<Rightarrow>
                      st\<lparr>object_info_map := object_info_map st @
                           [(c, \<lparr>names = [], oi_vizType = viz_type_of (val (h c)),
                                 is_direct = False, visited_bfs = False\<rparr>)]\<rparr>
                  | Some oi \<Rightarrow> st))"

text \<open>One turn of the breadth-first loop: the queue is not empty when it runs.\<close>

definition bfs_step :: "heap \<Rightarrow> bfs_state \<Rightarrow> bfs_state" where
  "bfs_step h st =
     (let a = hd (queue_bfs st);
          st1 = st\<lparr>queue_bfs := tl (queue_bfs st), items_processed_bfs := Suc (items_processed_bfs st)\<rparr>
      in case map_of (object_info_map st1) a of
           None \<Rightarrow> st1
         | Some oi \<Rightarrow>
             if visited_bfs oi then st1
             else fold (visit_child h) (children_to_check h (oi_vizType oi) a)
                    (st1\<lparr>object_info_map :=
                          update_info a (\<lambda>oi. oi\<lparr>visited_bfs := True\<rparr>) (object_info_map st1)\<rparr>))"

lemma visit_child_processed: "items_processed_bfs (visit_child h c st) = items_processed_bfs st"
  by (simp add: visit_child_def enqueue_def split: option.splits)

lemma fold_visit_child_processed:
  "items_processed_bfs (fold (visit_child h) cs st) = items_processed_bfs st"
  by (induction cs arbitrary: st) (simp_all add: visit_child_processed)

lemma bfs_step_processed: "items_processed_bfs (bfs_step h st) = Suc (items_processed_bfs st)"
  by (simp add: bfs_step_def Let_def fold_visit_child_processed split: option.splits)

text \<open>\<^verbatim>\<open>while queue_bfs and items_processed_bfs < MAX_TRAVERSAL_ITEMS\<close>.\<close>

function bfs_loop :: "heap \<Rightarrow> bfs_state \<Rightarrow> bfs_state" where
  "bfs_loop h st =
     (if queue_bfs st \<noteq> [] \<and> items_processed_bfs st < MAX_TRAVERSAL_ITEMS
      then bfs_loop h (bfs_step h st) else st)"
  by pat_completeness auto
termination
  by (relation "measure (\<lambda>(h, st). MAX_TRAVERSAL_ITEMS - items_processed_bfs st)")
     (auto simp: bfs_step_processed)

declare bfs_loop.simps [simp del]

subsection \<open>Rendering the nodes\<close>

record reference =
  field_name :: string
  target_id :: addr
  target_type :: viz_type

text \<open>
  The payload of a node by kind. A length \<open>None\<close> is the \<^verbatim>\<open>'?'\<close> the extractor writes when
  iterating the object raised. \<open>NoPayload\<close> is a node whose formatting raised before any payload
  key was set.
\<close>

datatype payload =
    NoPayload
  | Fields "(string \<times> string \<times> string) list"
  | Elements "(nat \<times> string) list" "nat option"
  | Pairs "(string \<times> string) list" "nat option"
  | SetElements "string list" "nat option"
  | NumpyInfo string string string string string

record item_info =
  vizType :: viz_type
  item_id :: addr
  name :: string
  item_type :: string
  memory_address :: string
  has_direct_reference :: bool
  references :: "reference list"
  payload :: payload
  format_error :: "string option"

text \<open>\<^verbatim>\<open>all_visualized_ids\<close>: the keys of the map when the traversal is over.\<close>

definition all_visualized_ids :: "info_map \<Rightarrow> addr set" where
  "all_visualized_ids m = set (map fst m)"

text \<open>
  Appending to \<^verbatim>\<open>item_info['references']\<close> when the target is in \<^verbatim>\<open>all_visualized_ids\<close>, that is,
  has an entry in the map; the entry gives the type of the target.
\<close>

definition add_ref :: "info_map \<Rightarrow> string \<Rightarrow> addr \<Rightarrow> reference list \<Rightarrow> reference list" where
  "add_ref m label t refs =
     (case map_of m t of
        None \<Rightarrow> refs
      | Some oi \<Rightarrow> refs @ [\<lparr>field_name = label, target_id = t, target_type = oi_vizType oi\<rparr>])"

text \<open>
  A loop whose body may raise: the result is the exception, if any, and the state before the
  turn that raised. In each loop below the body raises before it changes anything.
\<close>

fun fold_err :: "('a \<Rightarrow> 's \<Rightarrow> exn + 's) \<Rightarrow> 'a list \<Rightarrow> 's \<Rightarrow> exn option \<times> 's" where
  "fold_err f [] s = (None, s)"
| "fold_err f (x # xs) s = (case f x s of Inl e \<Rightarrow> (Some e, s) | Inr s' \<Rightarrow> fold_err f xs s')"

text \<open>
  The extractor's own calls of \<^verbatim>\<open>_safe_repr\<close> are made with room for the call itself: the depth
  \<open>d\<close> given to the extractor is the number of further nested calls the interpreter allows.
  \<^verbatim>\<open>_safe_repr(e)\<close> of a caught exception is its \<^verbatim>\<open>repr\<close>, cut at 150.
\<close>

definition error_repr :: "exn \<Rightarrow> string" where
  "error_repr e = clip 150 (exn_repr e)"

text \<open>A field of an object: an object of the store, or a text the extractor put in its place.\<close>

datatype field_value = Ref addr | Text string

definition inspect_fields :: "pyval \<Rightarrow> (string \<times> field_value) list" where
  "inspect_fields v =
     (case attrs_of v of
        None \<Rightarrow> [(''<error>'', Text ''Cannot inspect'')]
      | Some attrs \<Rightarrow>
          map (\<lambda>(n, x). (n, case x of None \<Rightarrow> Text ''<slot inaccessible>'' | Some a \<Rightarrow> Ref a)) attrs)"

definition render_field ::
  "nat \<Rightarrow> heap \<Rightarrow> info_map \<Rightarrow> addr \<Rightarrow> string \<times> field_value
     \<Rightarrow> (string \<times> string \<times> string) list \<times> reference list
     \<Rightarrow> exn + ((string \<times> string \<times> string) list \<times> reference list)" where
  "render_field d h m item_id_numeric = (\<lambda>(fname, fv) (flds, refs).
     if startswith fname ''__'' then Inr (flds, refs)
     else case fv of
            Text s \<Rightarrow> Inr (flds @ [(fname, str_repr (clip 150 s), ''str'')], refs)
          | Ref a \<Rightarrow>
              (case safe_repr (Suc d) h 150 (Some item_id_numeric) (all_visualized_ids m) a of
                 Inl e \<Rightarrow> Inl e
               | Inr r \<Rightarrow> Inr (flds @ [(fname, r, type_name (h a))], add_ref m fname a refs)))"

definition render_element ::
  "nat \<Rightarrow> heap \<Rightarrow> info_map \<Rightarrow> addr \<Rightarrow> addr
     \<Rightarrow> (nat \<times> string) list \<times> reference list \<times> nat
     \<Rightarrow> exn + ((nat \<times> string) list \<times> reference list \<times> nat)" where
  "render_element d h m item_id_numeric a = (\<lambda>(elements, refs, item_idx).
     case safe_repr (Suc d) h 150 (Some item_id_numeric) (all_visualized_ids m) a of
       Inl e \<Rightarrow> Inl e
     | Inr r \<Rightarrow>
         Inr (elements @ [(item_idx, r)], add_ref m (''['' @ dec item_idx @ '']'') a refs, Suc item_idx))"

definition render_pair ::
  "nat \<Rightarrow> heap \<Rightarrow> info_map \<Rightarrow> addr \<Rightarrow> addr \<times> addr
     \<Rightarrow> (string \<times> string) list \<times> reference list \<times> nat
     \<Rightarrow> exn + ((string \<times> string) list \<times> reference list \<times> nat)" where
  "render_pair d h m item_id_numeric = (\<lambda>(k, v) (pairs, refs, item_len).
     case safe_repr (Suc d) h 150 (Some item_id_numeric) (all_visualized_ids m) k of
       Inl e \<Rightarrow> Inl e
     | Inr key_repr \<Rightarrow>
        (case safe_repr (Suc d) h 150 (Some item_id_numeric) (all_visualized_ids m) v of
           Inl e \<Rightarrow> Inl e
         | Inr value_repr \<Rightarrow>
             Inr (pairs @ [(key_repr, value_repr)],
                  add_ref m (''val_for_key('' @ clip 15 key_repr @ '')'') v
                    (add_ref m (''key_obj('' @ clip 15 key_repr @ '')'') k refs),
                  Suc item_len)))"

definition render_set_element ::
  "nat \<Rightarrow> heap \<Rightarrow> info_map \<Rightarrow> addr \<Rightarrow> addr
     \<Rightarrow> string list \<times> reference list \<times> nat
     \<Rightarrow> exn + (string list \<times> reference list \<times> nat)" where
  "render_set_element d h m item_id_numeric a = (\<lambda>(elements, refs, item_len).
     case safe_repr (Suc d) h 150 (Some item_id_numeric) (all_visualized_ids m) a of
       Inl e \<Rightarrow> Inl e
     | Inr r \<Rightarrow>
         Inr (elements @ [r], add_ref m (''elem('' @ clip 20 r @ '')'') a refs, Suc item_len))"

text \<open>
  \<^verbatim>\<open>sorted(list(item_obj), key=lambda x: self._safe_repr(x))\<close>: a \<^verbatim>\<open>TypeError\<close> leaves the
  iteration order, any other exception reaches the handler of the set branch.
\<close>

definition sorted_elements :: "nat \<Rightarrow> heap \<Rightarrow> addr list \<Rightarrow> exn + addr list" where
  "sorted_elements d h xs =
     (case map_err (\<lambda>x. safe_repr (Suc d) h 150 None {} x) xs of
        Inl TypeError \<Rightarrow> Inr xs
      | Inl e \<Rightarrow> Inl e
      | Inr ks \<Rightarrow> Inr (map snd (sort_key fst (zip ks xs))))"

text \<open>The preview of \<^verbatim>\<open>str(arr)\<close>: at most the first and last five of more than ten lines, and
  at most 300 characters.\<close>

definition array_preview :: "string \<Rightarrow> string" where
  "array_preview array_str_full =
     (let lines = splitlines array_str_full;
          p = (if length lines > 10
               then join [CHR 0x0A] (take 5 lines) @ [CHR 0x0A] @ ''...'' @ [CHR 0x0A]
                    @ join [CHR 0x0A] (drop (length lines - 5) lines)
               else array_str_full)
      in if length p > 300 then take 297 p @ ''...'' else p)"

definition flat_refs :: "info_map \<Rightarrow> addr list \<Rightarrow> reference list" where
  "flat_refs m xs =
     fold (\<lambda>(i, a) refs. add_ref m (''[flat_idx_'' @ dec i @ '']'') a refs)
          (zip [0 ..< length (take 20 xs)] (take 20 xs)) []"

definition display_name :: "addr \<Rightarrow> obj_info \<Rightarrow> string" where
  "display_name a oi =
     (if names oi = [] then ''<'' @ viz_type_str (oi_vizType oi) @ '' @ '' @ hex a @ ''>''
      else join '', '' (sort (names oi)))"

text \<open>
  The body of the loop over \<^verbatim>\<open>object_info_map.items()\<close>: the record of one node. An exception
  that leaves the formatting of the node adds \<^verbatim>\<open>'error'\<close> to what was filled in so far.
\<close>

definition render_item :: "nat \<Rightarrow> heap \<Rightarrow> info_map \<Rightarrow> addr \<times> obj_info \<Rightarrow> item_info" where
  "render_item d h m = (\<lambda>(a, oi).
     let item_info = \<lparr>vizType = oi_vizType oi, item_id = a, name = display_name a oi,
                       item_type = type_name (h a), memory_address = hex a,
                       has_direct_reference = is_direct oi, references = [],
                       payload = NoPayload, format_error = None\<rparr>
     in case oi_vizType oi of
          VObject \<Rightarrow>
            (case fold_err (render_field d h m a) (inspect_fields (val (h a))) ([], []) of
               (None, flds, refs) \<Rightarrow> item_info\<lparr>references := refs, payload := Fields flds\<rparr>
             | (Some e, flds, refs) \<Rightarrow>
                 item_info\<lparr>references := refs, payload := Fields flds,
                            format_error := Some (''Formatting Error: '' @ exn_str e)\<rparr>)
        | VArray \<Rightarrow>
            (case fold_err (render_element d h m a) (elements_of (val (h a))) ([], [], 0) of
               (None, elements, refs, n) \<Rightarrow>
                 item_info\<lparr>references := refs, payload := Elements elements (Some n)\<rparr>
             | (Some e, elements, refs, n) \<Rightarrow>
                 item_info\<lparr>references := refs,
                            payload := Elements [(0, ''<Error: '' @ error_repr e @ ''>'')] None\<rparr>)
        | VDeque \<Rightarrow>
            (case fold_err (render_element d h m a) (elements_of (val (h a))) ([], [], 0) of
               (None, elements, refs, n) \<Rightarrow>
                 item_info\<lparr>references := refs, payload := Elements elements (Some n)\<rparr>
             | (Some e, elements, refs, n) \<Rightarrow>
                 item_info\<lparr>references := refs,
                            payload := Elements [(0, ''<Error: '' @ error_repr e @ ''>'')] None\<rparr>)
        | VDict \<Rightarrow>
            (case fold_err (render_pair d h m a) (items_of (val (h a))) ([], [], 0) of
               (None, pairs, refs, n) \<Rightarrow>
                 item_info\<lparr>references := refs, payload := Pairs pairs (Some n)\<rparr>
             | (Some e, pairs, refs, n) \<Rightarrow>
                 item_info\<lparr>references := refs, payload := Pairs [(''<Error>'', error_repr e)] None\<rparr>)
        | VSet \<Rightarrow>
            (case sorted_elements d h (elements_of (val (h a))) of
               Inl e \<Rightarrow> item_info\<lparr>payload := SetElements [''<Error: '' @ error_repr e @ ''>''] None\<rparr>
             | Inr xs \<Rightarrow>
                (case fold_err (render_set_element d h m a) xs ([], [], 0) of
                   (None, elements, refs, n) \<Rightarrow>
                     item_info\<lparr>references := refs, payload := SetElements elements (Some n)\<rparr>
                 | (Some e, elements, refs, n) \<Rightarrow>
                     item_info\<lparr>references := refs,
                                payload := SetElements [''<Error: '' @ error_repr e @ ''>''] None\<rparr>))
        | VNumpy \<Rightarrow>
            (case val (h a) of
               Ndarray nd \<Rightarrow>
                 (case (case nd_shape nd of
                          None \<Rightarrow> Inr ''None''
                        | Some sh \<Rightarrow> safe_repr (Suc d) h 150 None {} sh) of
                    Inl e \<Rightarrow> item_info\<lparr>format_error := Some (''Formatting Error: '' @ exn_str e)\<rparr>
                  | Inr shape \<Rightarrow>
                      item_info
                        \<lparr>references :=
                           (if nd_dtype nd = ''object''
                            then (case nd_flat nd of Inl e \<Rightarrow> [] | Inr xs \<Rightarrow> flat_refs m xs)
                            else []),
                         payload :=
                           NumpyInfo shape (nd_dtype nd) (nd_ndim nd) (nd_size nd)
                             (case nd_str nd of
                                Inl e \<Rightarrow> ''<Error getting str preview: '' @ error_repr e @ ''>''
                              | Inr s \<Rightarrow> array_preview s)\<rparr>)
             | _ \<Rightarrow> item_info))"

fun kind_priority :: "viz_type \<Rightarrow> nat" where
  "kind_priority VObject = 0"
| "kind_priority VDict = 1"
| "kind_priority VSet = 2"
| "kind_priority VArray = 3"
| "kind_priority VNumpy = 3"
| "kind_priority VDeque = 3"

text \<open>The key of the final, stable sort.\<close>

definition display_key :: "item_info \<Rightarrow> bool \<times> nat \<times> string" where
  "display_key x = (\<not> has_direct_reference x, kind_priority (vizType x), name x)"

text \<open>\<^verbatim>\<open>extract_visualizables(variables)\<close>, entered with room for \<open>d\<close> nested calls.\<close>

definition extract_visualizables :: "nat \<Rightarrow> heap \<Rightarrow> (string \<times> addr) list \<Rightarrow> item_info list" where
  "extract_visualizables d h variables =
     (let m = object_info_map (bfs_loop h (seed h variables))
      in sort_key display_key (map (render_item d h m) m))"

section \<open>The session and its hooks\<close>

text \<open>
  A frame as the hooks read it: the code object's name, file (\<^verbatim>\<open>inspect.getfile(frame)\<close>) and
  parameter layout, the current line and the two scopes. The caller chain \<^verbatim>\<open>f_back\<close> is given
  to the hooks as the list of the frames behind this one.
\<close>

record frame =
  co_name :: string
  co_filename :: string
  co_varnames :: "string list"
  co_argcount :: nat
  co_posonlyargcount :: nat
  co_kwonlyargcount :: nat
  co_varargs :: bool
  co_varkeywords :: bool
  f_lineno :: int
  f_locals :: "(string \<times> addr) list"
  f_globals :: "(string \<times> addr) list"

datatype call_event =
    CallEvent (call_id: nat) (parent_call_id: "nat option") (function_name: string)
      (args_repr: string) (line_no_in_function: int) (timestamp_step: nat)
  | ReturnEvent (call_id: nat) (return_value_repr: string) (timestamp_step: nat)

record stack_info =
  current_frames :: "(string \<times> int \<times> string) list"
  historical_events :: "call_event list"
  active_call_ids :: "nat list"

record step_entry =
  step :: nat
  line_no :: int
  code :: string
  locals :: "(string \<times> string) list"
  globals :: "(string \<times> string) list"
  stdout :: string
  visualizables :: "item_info list"
  error :: "string option"
  stack :: stack_info
  input_request :: "string option"

text \<open>
  The two process-wide bindings a run redirects: \<^verbatim>\<open>sys.stdout\<close> and \<^verbatim>\<open>builtins.input\<close>. A stream
  is a stream of the host or the buffer of the session; an input function is a function of the
  host or the mock of the session. Every such object is true in a condition.
\<close>

datatype stream = HostStream nat | SessionBuffer

datatype input_fn = HostInput nat | OneTimeInputMock

record host =
  sys_stdout :: stream
  builtins_input :: input_fn

text \<open>The attributes of the tracer object that its methods read or write.\<close>

record debugger =
  execution_trace :: "step_entry list"
  current_step :: nat
  stdout_buffer :: string
  original_stdout :: stream
  original_builtins_input :: "input_fn option"
  finished :: bool
  code_lines :: "string list"
  provided_input_value_for_next_call :: "string option"
  all_provided_inputs :: "string list"
  next_input_index :: nat
  call_id_counter :: nat
  call_event_log :: "call_event list"
  active_call_ids_stack :: "nat list"
  logged_call_ids_stack :: "nat list"
  quitting :: bool

definition debugger_internal_methods :: "string list" where
  "debugger_internal_methods =
     [''run_debugger'', ''user_line'', ''user_call'', ''user_return'',
      ''_safe_repr'', ''extract_visualizables'', ''_is_visualizable_candidate'',
      ''_get_frame_args_and_values'', ''_custom_input_handler'', ''_one_time_input_mock'',
      ''reset_internal_debugger_state'',
      ''run'', ''runcall'', ''main'',
      ''dispatch_line'', ''dispatch_call'', ''dispatch_return'', ''dispatch_exception'',
      ''stop_here'', ''break_here'', ''break_anywhere'']"

definition skip_globals_list :: "string list" where
  "skip_globals_list =
     [''__builtins__'', ''app'', ''Flask'', ''Bdb'', ''WebDebugger'', ''request'', ''jsonify'',
      ''render_template'', ''gc'', ''deque'', ''types'', ''os'', ''sys'', ''io'', ''traceback'',
      ''inspect'', ''requests'', ''json'', ''re'', ''remove_think_tag'', ''convert_to_python'',
      ''Response'', ''stream_with_context'', ''time'', ''clean_code_response'', ''ast'',
      ''sanitize_traceback_paths'', ''WaitingForInputException'', ''builtins'']"

text \<open>
  \<^verbatim>\<open>reset_internal_debugger_state\<close>, run while \<^verbatim>\<open>sys.stdout\<close> is \<open>out\<close>. \<^verbatim>\<open>Bdb.reset\<close> clears the
  engine's \<^verbatim>\<open>quitting\<close> flag.
\<close>

definition reset_internal_debugger_state :: "stream \<Rightarrow> debugger" where
  "reset_internal_debugger_state out =
     \<lparr>execution_trace = [], current_step = 0, stdout_buffer = [], original_stdout = out,
      original_builtins_input = None, finished = False, code_lines = [],
      provided_input_value_for_next_call = None, all_provided_inputs = [], next_input_index = 0,
      call_id_counter = 0, call_event_log = [], active_call_ids_stack = [],
      logged_call_ids_stack = [], quitting = False\<rparr>"

subsection \<open>The console-input mock\<close>

text \<open>
  \<^verbatim>\<open>_custom_input_handler\<close> writes the prompt and raises \<^verbatim>\<open>WaitingForInputException(prompt)\<close>:
  the result \<open>Inl prompt\<close>.
\<close>

definition custom_input_handler :: "debugger \<Rightarrow> string \<Rightarrow> (string + string) \<times> debugger" where
  "custom_input_handler s prompt = (Inl prompt, s\<lparr>stdout_buffer := stdout_buffer s @ prompt\<rparr>)"

text \<open>\<^verbatim>\<open>_one_time_input_mock\<close>: \<open>Inr\<close> the text returned to the program, or \<open>Inl\<close> the prompt of the
  exception raised.\<close>

definition one_time_input_mock :: "debugger \<Rightarrow> string \<Rightarrow> (string + string) \<times> debugger" where
  "one_time_input_mock s prompt =
     (if next_input_index s < length (all_provided_inputs s) then
        (let val_to_return = all_provided_inputs s ! next_input_index s
         in (Inr val_to_return,
             s\<lparr>stdout_buffer := stdout_buffer s @ prompt @ val_to_return @ [CHR 0x0A],
               next_input_index := next_input_index s + 1\<rparr>))
      else case provided_input_value_for_next_call s of
             Some val_to_return \<Rightarrow>
               (Inr val_to_return,
                s\<lparr>provided_input_value_for_next_call := None,
                  stdout_buffer := stdout_buffer s @ prompt @ val_to_return @ [CHR 0x0A],
                  all_provided_inputs := all_provided_inputs s @ [val_to_return],
                  next_input_index := length (all_provided_inputs s @ [val_to_return])\<rparr>)
           | None \<Rightarrow> custom_input_handler s prompt)"

subsection \<open>The call event log\<close>

text \<open>
  The try block for a parameter named \<^verbatim>\<open>self\<close> or \<^verbatim>\<open>cls\<close>: the text when the value was
  \<^verbatim>\<open>processed_specially\<close>. An \<^verbatim>\<open>AttributeError\<close> on \<^verbatim>\<open>value.__name__\<close> leaves it to \<^verbatim>\<open>_safe_repr\<close>.
\<close>

definition special_arg_repr :: "heap \<Rightarrow> string \<Rightarrow> addr \<Rightarrow> string option" where
  "special_arg_repr h arg_name a =
     (let found =
            (if arg_name = ''self''
             then (if type_module (h a) = Some ''__debugger_run__''
                   then Some (type_name (h a), ''object'') else None)
             else (if own_module (h a) = Some ''__debugger_run__''
                   then (case own_name (h a) of None \<Rightarrow> None | Some n \<Rightarrow> Some (n, ''class''))
                   else None))
      in case found of
           None \<Rightarrow> None
         | Some (class_name_str, type_description_str) \<Rightarrow>
             if class_name_str = [] then None
             else let max_len_for_name_part = 80 - int (length (''< '' @ type_description_str @ ''>''))
                  in Some (if int (length class_name_str) \<le> max_len_for_name_part
                           then ''<'' @ class_name_str @ '' '' @ type_description_str @ ''>''
                           else if max_len_for_name_part > 3
                           then ''<'' @ take (nat (max_len_for_name_part - 3)) class_name_str @ ''...''
                                @ '' '' @ type_description_str @ ''>''
                           else ''<'' @ type_description_str @ ''>''))"

text \<open>\<^verbatim>\<open>str(k)\<close> of a key of the keyword dictionary: the text itself for a \<^verbatim>\<open>str\<close>.\<close>

definition py_str :: "heap \<Rightarrow> addr \<Rightarrow> exn + string" where
  "py_str h a = (case val (h a) of Str s \<Rightarrow> Inr s | _ \<Rightarrow> py_repr h a)"

definition named_arg_repr :: "nat \<Rightarrow> heap \<Rightarrow> addr set \<Rightarrow> frame \<Rightarrow> string \<Rightarrow> exn + string list" where
  "named_arg_repr d h tracked fr arg_name =
     (case map_of (f_locals fr) arg_name of
        None \<Rightarrow> Inr []
      | Some a \<Rightarrow>
          (case (if arg_name = ''self'' \<or> arg_name = ''cls'' then special_arg_repr h arg_name a
                 else None) of
             Some r \<Rightarrow> Inr [arg_name @ ''='' @ r]
           | None \<Rightarrow>
               (case safe_repr (Suc d) h 80 None tracked a of
                  Inl e \<Rightarrow> Inl e
                | Inr r \<Rightarrow> Inr [arg_name @ ''='' @ r])))"

definition varargs_repr :: "nat \<Rightarrow> heap \<Rightarrow> addr set \<Rightarrow> frame \<Rightarrow> nat \<Rightarrow> exn + string list" where
  "varargs_repr d h tracked fr idx =
     (if \<not> co_varargs fr then Inr []
      else if idx \<ge> length (co_varnames fr) then Inl IndexError
      else case map_of (f_locals fr) (co_varnames fr ! idx) of
             None \<Rightarrow> Inr []
           | Some a \<Rightarrow>
               (case val (h a) of
                  Tuple xs \<Rightarrow>
                    (case map_err (\<lambda>x. safe_repr (Suc d) h 30 None tracked x) xs of
                       Inl e \<Rightarrow> Inl e
                     | Inr rs \<Rightarrow> Inr [''*'' @ co_varnames fr ! idx @ ''=('' @ join '', '' rs @ '')''])
                | _ \<Rightarrow> Inr []))"

definition varkw_repr :: "nat \<Rightarrow> heap \<Rightarrow> addr set \<Rightarrow> frame \<Rightarrow> nat \<Rightarrow> exn + string list" where
  "varkw_repr d h tracked fr idx =
     (if \<not> co_varkeywords fr then Inr []
      else if idx \<ge> length (co_varnames fr) then Inl IndexError
      else case map_of (f_locals fr) (co_varnames fr ! idx) of
             None \<Rightarrow> Inr []
           | Some a \<Rightarrow>
               (case val (h a) of
                  Dict kvs \<Rightarrow>
                    (case map_err
                            (\<lambda>(k, v). case py_str h k of
                                         Inl e \<Rightarrow> Inl e
                                       | Inr ks \<Rightarrow>
                                          (case safe_repr (Suc d) h 30 None tracked v of
                                             Inl e \<Rightarrow> Inl e
                                           | Inr r \<Rightarrow> Inr (ks @ ''='' @ r)))
                            kvs of
                       Inl e \<Rightarrow> Inl e
                     | Inr rs \<Rightarrow>
                         Inr [''**'' @ co_varnames fr ! idx @ ''={'' @ join '', '' rs @ ''}''])
                | _ \<Rightarrow> Inr []))"

text \<open>\<^verbatim>\<open>_get_frame_args_and_values(frame, tracked_ids_for_repr_context)\<close>.\<close>

definition get_frame_args_and_values :: "nat \<Rightarrow> heap \<Rightarrow> addr set \<Rightarrow> frame \<Rightarrow> exn + string" where
  "get_frame_args_and_values d h tracked fr =
     (let n = co_argcount fr + co_kwonlyargcount fr + co_posonlyargcount fr
      in case map_err (named_arg_repr d h tracked fr) (take n (co_varnames fr)) of
           Inl e \<Rightarrow> Inl e
         | Inr named \<Rightarrow>
            (case varargs_repr d h tracked fr n of
               Inl e \<Rightarrow> Inl e
             | Inr va \<Rightarrow>
                (case varkw_repr d h tracked fr (if co_varargs fr then n + 1 else n) of
                   Inl e \<Rightarrow> Inl e
                 | Inr kw \<Rightarrow> Inr (join '', '' (concat named @ va @ kw)))))"

definition frame_function_name :: "frame \<Rightarrow> string" where
  "frame_function_name fr = (if co_name fr \<noteq> [] then co_name fr else ''<lambda>'')"

text \<open>The two tests by which the hooks tell a frame of the tracer or of the engine.\<close>

definition is_debugger_internal :: "env \<Rightarrow> frame \<Rightarrow> bool" where
  "is_debugger_internal E fr =
     ((case abspath E (co_filename fr) of None \<Rightarrow> co_filename fr | Some p \<Rightarrow> p)
        = debugger_script_abs_path E
      \<and> frame_function_name fr \<in> set debugger_internal_methods)"

definition is_bdb_internal :: "frame \<Rightarrow> bool" where
  "is_bdb_internal fr = contains (basename (co_filename fr)) ''bdb.py''"

text \<open>
  \<^verbatim>\<open>user_call(frame, argument_list)\<close>, entered with room for \<open>d\<close> nested calls over the store
  \<open>h\<close>. An exception inside the hook is caught and printed; what the hook wrote before it stays.
\<close>

definition user_call :: "env \<Rightarrow> nat \<Rightarrow> heap \<Rightarrow> debugger \<Rightarrow> frame \<Rightarrow> debugger" where
  "user_call E d h s fr =
     (let fname = frame_function_name fr;
          new_call_id = call_id_counter s + 1;
          logged_parent_call_id =
            (if logged_call_ids_stack s \<noteq> [] then Some (last (logged_call_ids_stack s)) else None);
          s1 = s\<lparr>call_id_counter := new_call_id,
                 active_call_ids_stack := active_call_ids_stack s @ [new_call_id]\<rparr>
      in if \<not> is_debugger_internal E fr \<and> \<not> is_bdb_internal fr then
           (case (if fname \<noteq> ''<module>'' then get_frame_args_and_values d h {} fr
                  else Inr ''N/A (module scope)'') of
              Inl e \<Rightarrow> s1
            | Inr args_text \<Rightarrow>
                s1\<lparr>call_event_log := call_event_log s1 @
                      [CallEvent new_call_id logged_parent_call_id fname args_text
                         (f_lineno fr) (current_step s1)],
                   logged_call_ids_stack := logged_call_ids_stack s1 @ [new_call_id]\<rparr>)
         else s1)"

definition is_call :: "call_event \<Rightarrow> bool" where
  "is_call e = (case e of CallEvent c p f a l t \<Rightarrow> True | ReturnEvent c r t \<Rightarrow> False)"

text \<open>
  \<^verbatim>\<open>user_return(frame, return_value)\<close>. When rendering the return value raises, the exception
  leaves the hook before the logged stack is popped.
\<close>

definition user_return :: "env \<Rightarrow> nat \<Rightarrow> heap \<Rightarrow> debugger \<Rightarrow> frame \<Rightarrow> addr \<Rightarrow> debugger" where
  "user_return E d h s fr return_value =
     (if active_call_ids_stack s = [] then s
      else
        let returned_call_id = last (active_call_ids_stack s);
            s1 = s\<lparr>active_call_ids_stack := butlast (active_call_ids_stack s)\<rparr>;
            is_top_level_module_return =
              (case find (\<lambda>event. is_call event \<and> call_id event = returned_call_id)
                         (rev (call_event_log s1)) of
                 None \<Rightarrow> False
               | Some event \<Rightarrow> function_name event = ''<module>'' \<and> parent_call_id event = None);
            on_top = (logged_call_ids_stack s1 \<noteq> []
                      \<and> last (logged_call_ids_stack s1) = returned_call_id);
            logged =
              (if \<not> is_debugger_internal E fr \<and> \<not> is_bdb_internal fr
                  \<and> \<not> is_top_level_module_return \<and> on_top
               then (case safe_repr (Suc d) h 150 None {} return_value of
                       Inl e \<Rightarrow> Inl e
                     | Inr rv_repr \<Rightarrow>
                         Inr (s1\<lparr>call_event_log := call_event_log s1 @
                                   [ReturnEvent returned_call_id rv_repr (current_step s1)]\<rparr>))
               else Inr s1)
        in case logged of
             Inl e \<Rightarrow> s1
           | Inr s2 \<Rightarrow>
               if on_top then s2\<lparr>logged_call_ids_stack := butlast (logged_call_ids_stack s2)\<rparr>
               else s2)"

subsection \<open>The step recorder\<close>

text \<open>\<^verbatim>\<open>{**globals_dict, **locals_dict}\<close>: the keys of the first in their order, with the values
  of the second where it has the key, then the remaining items of the second.\<close>

definition dict_merge :: "(string \<times> addr) list \<Rightarrow> (string \<times> addr) list \<Rightarrow> (string \<times> addr) list" where
  "dict_merge g l =
     map (\<lambda>(k, v). (k, case map_of l k of Some v' \<Rightarrow> v' | None \<Rightarrow> v)) g
     @ filter (\<lambda>(k, v). map_of g k = None) l"

text \<open>The filter of the variable displays: no dunder name, no graph candidate, no callable, no
  module or class.\<close>

definition displayable :: "heap \<Rightarrow> string \<times> addr \<Rightarrow> bool" where
  "displayable h = (\<lambda>(k, a).
     \<not> startswith k ''__'' \<and> \<not> is_visualizable_candidate h a \<and> \<not> is_callable (h a)
     \<and> \<not> is_type_or_module (h a))"

definition display_vars ::
  "nat \<Rightarrow> heap \<Rightarrow> addr set \<Rightarrow> (string \<times> addr) list \<Rightarrow> exn + (string \<times> string) list" where
  "display_vars d h tracked vars =
     map_err (\<lambda>(k, a). case safe_repr (Suc d) h 150 None tracked a of
                          Inl e \<Rightarrow> Inl e
                        | Inr r \<Rightarrow> Inr (k, r))
             (filter (displayable h) vars)"

text \<open>
  What one turn of the walk over the caller chain adds to \<^verbatim>\<open>current_frames_list\<close>: nothing for
  a frame of the tracer or the engine, nothing for a frame outside the submission, nothing when
  rendering the arguments raises.
\<close>

definition stack_frame_entry ::
  "env \<Rightarrow> nat \<Rightarrow> heap \<Rightarrow> addr set \<Rightarrow> frame \<Rightarrow> (string \<times> int \<times> string) list" where
  "stack_frame_entry E d h tracked fr =
     (let f_name_for_stack = frame_function_name fr
      in if (co_filename fr = debugger_script_abs_path E
               \<and> f_name_for_stack \<in> set debugger_internal_methods)
            \<or> is_bdb_internal fr then []
         else if co_filename fr = ''<string>'' then
           (case get_frame_args_and_values d h tracked fr of
              Inl e \<Rightarrow> []
            | Inr arguments_str \<Rightarrow>
                [(if f_name_for_stack = ''<module>'' then ''(Global Scope)''
                  else if f_name_for_stack = ''<lambda>'' then ''lambda''
                  else f_name_for_stack,
                  f_lineno fr, arguments_str)])
         else [])"

definition MAX_STACK_DEPTH_DISPLAY_SIMPLE :: nat where
  "MAX_STACK_DEPTH_DISPLAY_SIMPLE = 7"

definition events_up_to :: "nat \<Rightarrow> call_event list \<Rightarrow> call_event list" where
  "events_up_to n evs = filter (\<lambda>e. timestamp_step e \<le> n) evs"

text \<open>
  The try block of \<^verbatim>\<open>user_line\<close> for a line of the submission, up to the record it appends:
  \<open>Inl\<close> when it raises.
\<close>

definition capture_step ::
  "env \<Rightarrow> nat \<Rightarrow> heap \<Rightarrow> debugger \<Rightarrow> frame \<Rightarrow> frame list \<Rightarrow> exn + step_entry" where
  "capture_step E d h s fr callers =
     (let locals_dict = f_locals fr;
          globals_dict = f_globals fr;
          visualizables_data = extract_visualizables d h (dict_merge globals_dict locals_dict);
          tracked_ids_for_var_repr = set (map item_id visualizables_data)
      in case display_vars d h tracked_ids_for_var_repr locals_dict of
           Inl e \<Rightarrow> Inl e
         | Inr locals_display \<Rightarrow>
            (case display_vars d h tracked_ids_for_var_repr
                    (filter (\<lambda>(k, a). map_of locals_dict k = None \<and> k \<notin> set skip_globals_list)
                            globals_dict) of
               Inl e \<Rightarrow> Inl e
             | Inr globals_display \<Rightarrow>
                 Inr \<lparr>step = current_step s,
                      line_no = f_lineno fr,
                      code = (if code_lines s \<noteq> [] \<and> 0 \<le> f_lineno fr - 1
                                 \<and> f_lineno fr - 1 < int (length (code_lines s))
                              then strip (code_lines s ! nat (f_lineno fr - 1)) else []),
                      locals = locals_display,
                      globals = globals_display,
                      stdout = stdout_buffer s,
                      visualizables = visualizables_data,
                      error = None,
                      stack =
                        \<lparr>current_frames =
                           concat (map (stack_frame_entry E d h tracked_ids_for_var_repr)
                                       (take MAX_STACK_DEPTH_DISPLAY_SIMPLE (fr # callers))),
                         historical_events = events_up_to (current_step s) (call_event_log s),
                         active_call_ids = logged_call_ids_stack s\<rparr>,
                      input_request = None\<rparr>))"

text \<open>
  \<^verbatim>\<open>user_line(frame)\<close> over the store \<open>h\<close>, with the caller chain \<open>callers\<close>, room for \<open>d\<close> nested
  calls, and \<open>tb\<close> the text \<^verbatim>\<open>traceback.format_exc()\<close> gives should the capture raise. A line that
  is not of the submission only asks the engine to go on. \<^verbatim>\<open>set_quit\<close> sets \<^verbatim>\<open>quitting\<close>.
\<close>

definition user_line ::
  "env \<Rightarrow> nat \<Rightarrow> heap \<Rightarrow> string \<Rightarrow> debugger \<Rightarrow> frame \<Rightarrow> frame list \<Rightarrow> debugger" where
  "user_line E d h tb s fr callers =
     (if co_filename fr = debugger_script_abs_path E \<and> co_name fr \<in> set debugger_internal_methods
      then s
      else if is_bdb_internal fr then s
      else if co_filename fr \<noteq> ''<string>'' then s
      else case capture_step E d h s fr callers of
             Inr step_entry \<Rightarrow>
               s\<lparr>execution_trace := execution_trace s @ [step_entry],
                 current_step := current_step s + 1\<rparr>
           | Inl e \<Rightarrow>
               let sanitized_error_details =
                     sanitize_traceback_paths E
                       (''Debugger Internal Error in user_line: '' @ exn_str e @ [CHR 0x0A] @ tb) False;
                   error_info_user_line =
                     \<lparr>step = current_step s, line_no = f_lineno fr,
                      code = ''<Debugger Error in user_line>'', locals = [], globals = [],
                      stdout = stdout_buffer s, visualizables = [],
                      error = Some sanitized_error_details,
                      stack = \<lparr>current_frames = [],
                               historical_events = events_up_to (current_step s) (call_event_log s),
                               active_call_ids = logged_call_ids_stack s\<rparr>,
                      input_request = None\<rparr>
               in s\<lparr>execution_trace :=
                       (if execution_trace s = []
                           \<or> error (last (execution_trace s)) \<noteq> Some sanitized_error_details
                        then execution_trace s @ [error_info_user_line] else execution_trace s),
                     current_step := current_step s + 1,
                     quitting := True\<rparr>)"

subsection \<open>One run of the session\<close>

text \<open>
  What the engine does with the submission, as the tracer sees it. The source does not parse
  (\<^verbatim>\<open>compile\<close> raises \<^verbatim>\<open>SyntaxError\<close>), or it runs. While it runs, the engine reports lines,
  calls and returns to the hooks, and the program calls \<^verbatim>\<open>input\<close>, in some order. The frames of
  the mock, of \<^verbatim>\<open>_custom_input_handler\<close> and of \<^verbatim>\<open>WaitingForInputException.__init__\<close> are frames
  of Python code like any other: the engine reports them too, as events of their own. \<open>OnInput\<close>
  is what the body of the mock does to the session; the hooks that run between its statements
  are those of frames of the tracer, which read and write none of the attributes the mock
  writes. Then the call of \<^verbatim>\<open>exec\<close> returns or is left by an exception.
\<close>

datatype hook =
    OnLine frame "frame list" heap nat string
  | OnCall frame heap nat
  | OnReturn frame addr heap nat
  | OnInput string

record syntax_error =
  se_lineno :: "int option"
  se_text :: "string option"
  se_formatted :: string

record raised =
  tb_last_filename :: "string option"
  tb_last_lineno :: int
  tb_formatted :: string

text \<open>
  How the call of \<^verbatim>\<open>exec\<close> ends: it returns (also when the engine's \<^verbatim>\<open>BdbQuit\<close> reaches
  \<^verbatim>\<open>runcall\<close>, which swallows it), or an exception leaves it: the blocking-input signal that
  the submission did not catch, a \<^verbatim>\<open>SyntaxError\<close> raised while the program ran (by \<^verbatim>\<open>eval\<close>,
  \<^verbatim>\<open>exec\<close>, \<^verbatim>\<open>compile\<close> or an import), any other \<^verbatim>\<open>Exception\<close>, or an exception that is none
  (\<^verbatim>\<open>SystemExit\<close>, \<^verbatim>\<open>KeyboardInterrupt\<close>). Every list of events goes with every ending: a
  submission that catches the blocking-input signal goes on running, and ends as it likes.
\<close>

datatype ending =
    Returns
  | Raises raised
  | RaisesSyntaxError syntax_error
  | RaisesWaitingForInput string
  | Exits

datatype behaviour = SyntaxInvalid syntax_error | Executes "hook list" ending

text \<open>The namespace of the submission when the run ends, the store then, and the room for nested
  calls the final rendering has.\<close>

record final_view =
  final_namespace :: "(string \<times> addr) list"
  final_heap :: heap
  final_depth :: nat

text \<open>
  One event of a run. The engine's \<^verbatim>\<open>trace_dispatch\<close> calls the hook of the event; after a hook
  asked to quit, the engine raises \<^verbatim>\<open>BdbQuit\<close> in the traced frame, the interpreter drops the
  trace function, and no hook is called any more. A call of \<^verbatim>\<open>input\<close> is no event of the engine:
  it reaches the mock whenever the program makes it. Whether the mock returns or raises is for
  the program to deal with; the session keeps what the mock wrote.
\<close>

definition trace_dispatch :: "env \<Rightarrow> hook \<Rightarrow> debugger \<Rightarrow> debugger" where
  "trace_dispatch E ev s =
     (case ev of
        OnLine fr callers h d tb \<Rightarrow> if quitting s then s else user_line E d h tb s fr callers
      | OnCall fr h d \<Rightarrow> if quitting s then s else user_call E d h s fr
      | OnReturn fr rv h d \<Rightarrow> if quitting s then s else user_return E d h s fr rv
      | OnInput prompt \<Rightarrow> snd (one_time_input_mock s prompt))"

fun run_hooks :: "env \<Rightarrow> hook list \<Rightarrow> debugger \<Rightarrow> debugger" where
  "run_hooks E [] s = s"
| "run_hooks E (ev # evs) s = run_hooks E evs (trace_dispatch E ev s)"

text \<open>How the try block of \<^verbatim>\<open>run_debugger\<close> is left: by no exception, or to one of its except
  clauses, or by an exception none of them catches.\<close>

datatype outcome =
    Done
  | WaitingForInput string
  | SyntaxFailed syntax_error
  | Failed raised
  | Exited

fun outcome_of :: "ending \<Rightarrow> outcome" where
  "outcome_of Returns = Done"
| "outcome_of (Raises r) = Failed r"
| "outcome_of (RaisesSyntaxError se) = SyntaxFailed se"
| "outcome_of (RaisesWaitingForInput prompt) = WaitingForInput prompt"
| "outcome_of Exits = Exited"

definition run_try :: "env \<Rightarrow> behaviour \<Rightarrow> debugger \<Rightarrow> outcome \<times> debugger" where
  "run_try E b s =
     (case b of
        SyntaxInvalid se \<Rightarrow> (SyntaxFailed se, s)
      | Executes evs fin \<Rightarrow> (outcome_of fin, run_hooks E evs s))"

text \<open>Assignment to keys of the last record of the trace.\<close>

definition amend_last :: "(step_entry \<Rightarrow> step_entry) \<Rightarrow> step_entry list \<Rightarrow> step_entry list" where
  "amend_last f tr = (if tr = [] then [] else butlast tr @ [f (last tr)])"

text \<open>The except clauses: the state they leave, and \<^verbatim>\<open>error_info\<close> with whether it is of a
  \<^verbatim>\<open>SyntaxError\<close>.\<close>

definition handle_outcome ::
  "env \<Rightarrow> outcome \<Rightarrow> debugger \<Rightarrow> debugger \<times> (step_entry \<times> bool) option" where
  "handle_outcome E oc s =
     (case oc of
        WaitingForInput prompt \<Rightarrow>
          (s\<lparr>execution_trace :=
               amend_last (\<lambda>last_step. last_step\<lparr>input_request := Some prompt,
                                                  stdout := stdout_buffer s\<rparr>)
                          (execution_trace s),
             finished := False\<rparr>,
           None)
      | SyntaxFailed se \<Rightarrow>
          (s,
           Some (\<lparr>step = 0,
                  line_no = (case se_lineno se of None \<Rightarrow> - 1 | Some n \<Rightarrow> if n = 0 then - 1 else n),
                  code = (case se_text se of
                            None \<Rightarrow> ''Syntax Error''
                          | Some t \<Rightarrow> if t = [] then ''Syntax Error'' else strip t),
                  locals = [], globals = [], stdout = stdout_buffer s, visualizables = [],
                  error = Some (sanitize_traceback_paths E
                                  (''SyntaxError: '' @ strip (se_formatted se)) True),
                  stack = \<lparr>current_frames = [], historical_events = call_event_log s,
                           active_call_ids = logged_call_ids_stack s\<rparr>,
                  input_request = None\<rparr>, True))
      | Failed r \<Rightarrow>
          (let originated_in_user_code_flag = (tb_last_filename r = Some ''<string>'');
               error_line_no = (if originated_in_user_code_flag then tb_last_lineno r else - 1);
               tr = execution_trace s
           in (s,
               Some (\<lparr>step = current_step s,
                      line_no = (if error_line_no \<noteq> - 1 then error_line_no
                                 else if tr = [] then - 1 else line_no (last tr)),
                      code = (if tr = [] then ''<Error during execution>'' else code (last tr)),
                      locals = (if tr = [] then [] else locals (last tr)),
                      globals = (if tr = [] then [] else globals (last tr)),
                      stdout = stdout_buffer s,
                      visualizables = (if tr = [] then [] else visualizables (last tr)),
                      error = Some (sanitize_traceback_paths E (strip (tb_formatted r))
                                      originated_in_user_code_flag),
                      stack = \<lparr>current_frames =
                                 (if tr = [] then [] else current_frames (stack (last tr))),
                               historical_events = events_up_to (current_step s) (call_event_log s),
                               active_call_ids = logged_call_ids_stack s\<rparr>,
                      input_request = None\<rparr>, False)))
      | _ \<Rightarrow> (s, None))"

text \<open>
  The finally clause after the two bindings of the host are restored: \<open>Inl\<close> when rendering the
  module-level variables raises, which leaves \<^verbatim>\<open>run_debugger\<close> by that exception.
\<close>

definition finalize ::
  "nat \<Rightarrow> heap \<Rightarrow> (string \<times> addr) list \<Rightarrow> outcome \<Rightarrow> (step_entry \<times> bool) option \<Rightarrow> debugger
     \<Rightarrow> exn + debugger" where
  "finalize d h final_context_snapshot oc error_info s0 =
     (let is_waiting_for_input_flag = (case oc of WaitingForInput p \<Rightarrow> True | _ \<Rightarrow> False);
          s = s0\<lparr>original_builtins_input := None,
                 finished := (if is_waiting_for_input_flag then finished s0 else True)\<rparr>;
          final_stdout_val = stdout_buffer s;
          current_final_visualizables = extract_visualizables d h final_context_snapshot;
          current_tracked_ids_final = set (map item_id current_final_visualizables)
      in case display_vars d h current_tracked_ids_final
                (filter (\<lambda>(k, a). k \<notin> set skip_globals_list) final_context_snapshot) of
           Inl e \<Rightarrow> Inl e
         | Inr module_level_vars_display \<Rightarrow>
            (case error_info of
               Some (ei, is_syntax_error) \<Rightarrow>
                 (let final_stack = \<lparr>current_frames = current_frames (stack ei),
                                     historical_events = call_event_log s,
                                     active_call_ids = logged_call_ids_stack s\<rparr>;
                      with_view = (\<lambda>e. if is_syntax_error
                                        then e\<lparr>locals := module_level_vars_display, globals := [],
                                               visualizables := current_final_visualizables\<rparr>
                                        else e);
                      error_info_for_trace = with_view (ei\<lparr>stdout := final_stdout_val, stack := final_stack\<rparr>)
                  in if execution_trace s = []
                        \<or> error (last (execution_trace s)) \<noteq> error error_info_for_trace
                     then Inr (s\<lparr>execution_trace := execution_trace s @ [error_info_for_trace]\<rparr>)
                     else Inr (s\<lparr>execution_trace :=
                                  amend_last (\<lambda>l. with_view (l\<lparr>stdout := final_stdout_val,
                                                                stack := final_stack\<rparr>))
                                             (execution_trace s)\<rparr>))
             | None \<Rightarrow>
                 if is_waiting_for_input_flag then Inr s
                 else
                   let final_stack_info_normal_finish =
                         \<lparr>current_frames = [], historical_events = call_event_log s,
                          active_call_ids = []\<rparr>
                   in if execution_trace s \<noteq> [] then
                        Inr (s\<lparr>execution_trace :=
                                amend_last (\<lambda>l. l\<lparr>stdout := final_stdout_val,
                                                  visualizables := current_final_visualizables,
                                                  locals := module_level_vars_display,
                                                  globals := [],
                                                  stack := final_stack_info_normal_finish\<rparr>)
                                           (execution_trace s)\<rparr>)
                      else
                        Inr (s\<lparr>execution_trace :=
                                [\<lparr>step = current_step s, line_no = - 1,
                                  code = ''Finished (No user lines traced)'',
                                  locals = module_level_vars_display, globals = [],
                                  stdout = final_stdout_val,
                                  visualizables = current_final_visualizables, error = None,
                                  stack = final_stack_info_normal_finish,
                                  input_request = None\<rparr>]\<rparr>)))"

text \<open>
  The statements of \<^verbatim>\<open>run_debugger\<close> before its try block, from the host \<open>H\<close>: the session is
  reset and takes the source lines, the input history and the injected value, and remembers the
  two bindings of the host it is about to replace.
\<close>

definition start_run :: "host \<Rightarrow> string \<Rightarrow> string option \<Rightarrow> string list \<Rightarrow> debugger" where
  "start_run H code_str input_to_inject previous_inputs_list =
     (reset_internal_debugger_state (sys_stdout H))
       \<lparr>code_lines := splitlines code_str,
        all_provided_inputs := previous_inputs_list,
        next_input_index := 0,
        provided_input_value_for_next_call := input_to_inject,
        stdout_buffer := [],
        original_stdout := sys_stdout H,
        original_builtins_input := Some (builtins_input H)\<rparr>"

text \<open>
  \<^verbatim>\<open>run_debugger(code_str, input_to_inject, previous_inputs_list)\<close> from the host \<open>H\<close>, for a
  submission that behaves as \<open>b\<close> and ends in the view \<open>fv\<close>. The result is the host after the
  run, the session after the run, and the trace returned or the exception that leaves the call.
\<close>

definition run_debugger ::
  "env \<Rightarrow> host \<Rightarrow> string \<Rightarrow> string option \<Rightarrow> string list \<Rightarrow> behaviour \<Rightarrow> final_view
     \<Rightarrow> host \<times> debugger \<times> (exn + step_entry list)" where
  "run_debugger E H code_str input_to_inject previous_inputs_list b fv =
     (let s0 = start_run H code_str input_to_inject previous_inputs_list;
          H1 = H\<lparr>sys_stdout := SessionBuffer, builtins_input := OneTimeInputMock\<rparr>;
          (oc, s1) = run_try E b s0;
          (s2, error_info) = handle_outcome E oc s1;
          H2 = H1\<lparr>sys_stdout := original_stdout s2,
                  builtins_input := (case original_builtins_input s2 of
                                       Some f \<Rightarrow> f
                                     | None \<Rightarrow> builtins_input H1)\<rparr>
      in case finalize (final_depth fv) (final_heap fv) (final_namespace fv) oc error_info s2 of
           Inl e \<Rightarrow>
             (H2, s2\<lparr>original_builtins_input := None,
                     finished := (case oc of WaitingForInput p \<Rightarrow> finished s2 | _ \<Rightarrow> True)\<rparr>, Inl e)
         | Inr s3 \<Rightarrow>
             (case oc of
                Exited \<Rightarrow> (H2, s3, Inl (OtherError ''SystemExit''))
              | _ \<Rightarrow> (H2, s3, Inr (execution_trace s3))))"

section \<open>Concrete inputs\<close>

text \<open>A host whose paths are absolute already, with the tracer in \<^verbatim>\<open>/srv/app/a.py\<close>.\<close>

definition host_env :: env where
  "host_env = \<lparr>abspath = (\<lambda>p. Some p), debugger_script_abs = ''/srv/app/a.py'',
               debugger_script_abs_path = ''/srv/app/a.py'', python_std_lib_prefix = ''/usr''\<rparr>"

text \<open>The integer \<^verbatim>\<open>0\<close>, and a store in which every identity is that integer.\<close>

definition int_zero :: pyobj where
  "int_zero = \<lparr>val = Prim, type_name = ''int'', type_module = Some ''builtins'',
               type_str = ''<class 'int'>'', repr_text = Inr ''0'', is_callable = False,
               is_type_or_module = False, own_module = None, own_name = None\<rparr>"

definition zero_heap :: heap where
  "zero_heap = (\<lambda>a. int_zero)"

text \<open>The frame of a function \<^verbatim>\<open>f()\<close> of the submission, at its first line.\<close>

definition frame_f :: frame where
  "frame_f = \<lparr>co_name = ''f'', co_filename = ''<string>'', co_varnames = [], co_argcount = 0,
              co_posonlyargcount = 0, co_kwonlyargcount = 0, co_varargs = False,
              co_varkeywords = False, f_lineno = 1, f_locals = [], f_globals = []\<rparr>"

text \<open>A host with its own output stream and input function, and a run that ends with an
  empty namespace.\<close>

definition host0 :: host where
  "host0 = \<lparr>sys_stdout = HostStream 1, builtins_input = HostInput 1\<rparr>"

definition empty_view :: final_view where
  "empty_view = \<lparr>final_namespace = [], final_heap = zero_heap, final_depth = 0\<rparr>"

text \<open>The submission \<^verbatim>\<open>def f(): return 0\<close> followed by \<^verbatim>\<open>f()\<close>, as the hooks see the call.\<close>

definition call_and_return :: behaviour where
  "call_and_return = Executes [OnCall frame_f zero_heap 0, OnReturn frame_f 0 zero_heap 0] Returns"

text \<open>The frame of the module-level code of the submission.\<close>

definition frame_module :: frame where
  "frame_module = frame_f\<lparr>co_name := ''<module>''\<rparr>"

text \<open>
  The submission of two lines \<^verbatim>\<open>x = 0\<close>, \<^verbatim>\<open>eval('1 +')\<close>. The engine reports each line before
  it runs, \<^verbatim>\<open>eval\<close> raises \<^verbatim>\<open>SyntaxError\<close> when it compiles its argument, no frame is entered
  for it, and the engine reports the return of the module-level frame as the exception leaves
  it. The three names the session puts in the namespace (\<^verbatim>\<open>__name__\<close>, \<^verbatim>\<open>deque\<close>,
  \<^verbatim>\<open>__builtins__\<close>) are left out of the scopes: none of them is displayed or becomes a node.
\<close>

definition frame_line2 :: frame where
  "frame_line2 = frame_module\<lparr>f_lineno := 2, f_locals := [(''x'', 0)], f_globals := [(''x'', 0)]\<rparr>"

definition eval_src :: string where
  "eval_src = ''x = 0'' @ [CHR 0x0A] @ ''eval('' @ [CHR 0x27] @ ''1 +'' @ [CHR 0x27] @ '')''"

definition eval_error :: syntax_error where
  "eval_error =
     \<lparr>se_lineno = Some 1, se_text = Some ''1 +'',
      se_formatted = join [CHR 0x0A]
        [''  File '' @ [CHR 0x22] @ ''<string>'' @ [CHR 0x22] @ '', line 1'', ''    1 +'',
         ''       ^'', ''SyntaxError: invalid syntax'']\<rparr>"

definition eval_fails :: behaviour where
  "eval_fails =
     Executes [OnLine frame_module [] zero_heap 0 [], OnLine frame_line2 [] zero_heap 0 [],
               OnReturn frame_line2 0 zero_heap 0]
              (RaisesSyntaxError eval_error)"

definition eval_view :: final_view where
  "eval_view = \<lparr>final_namespace = [(''x'', 0)], final_heap = zero_heap, final_depth = 0\<rparr>"

text \<open>
  The traceback of the submission \<^verbatim>\<open>raise ExceptionGroup('x', [ValueError(1)])\<close> as
  \<^verbatim>\<open>traceback.format_exception\<close> prints it (from Python 3.11 on) and the clause
  \<^verbatim>\<open>except Exception\<close> strips it: the frames of an exception group stand behind a margin.
\<close>

definition group_frame_line :: string where
  "group_frame_line =
     ''  |   File '' @ [CHR 0x22] @ ''/srv/app/a.py'' @ [CHR 0x22] @ '', line 759, in run_debugger''"

definition group_tb :: string where
  "group_tb = join [CHR 0x0A]
     [''+ Exception Group Traceback (most recent call last):'',
      group_frame_line,
      ''  |     self.runcall(exec, compiled_code, namespace, namespace)'',
      ''  |   File '' @ [CHR 0x22] @ ''/usr/lib/python3.11/bdb.py'' @ [CHR 0x22] @ '', line 606, in runcall'',
      ''  |     res = func(*args, **kwds)'',
      ''  |   File '' @ [CHR 0x22] @ ''<string>'' @ [CHR 0x22] @ '', line 1, in <module>'',
      ''  | ExceptionGroup: x (1 sub-exception)'',
      ''  +-+---------------- 1 ----------------'',
      ''    | ValueError: 1'',
      ''    +------------------------------------'']"

section \<open>Predicates of the verification\<close>

text \<open>The call ids of the call records of a log.\<close>

definition call_ids_of :: "call_event list \<Rightarrow> nat set" where
  "call_ids_of evs = call_id ` set (filter is_call evs)"

text \<open>Reading a log from the call ids \<open>seen\<close>: every return record names a call id seen
  before it.\<close>

fun matched :: "nat set \<Rightarrow> call_event list \<Rightarrow> bool" where
  "matched seen [] = True"
| "matched seen (CallEvent c p f a l t # es) = matched (insert c seen) es"
| "matched seen (ReturnEvent c r t # es) = (c \<in> seen \<and> matched seen es)"

definition log_ok :: "debugger \<Rightarrow> bool" where
  "log_ok s =
     (matched {} (call_event_log s)
      \<and> set (logged_call_ids_stack s) \<subseteq> call_ids_of (call_event_log s))"

text \<open>A call record of module-level code that has no logged parent.\<close>

definition top_module :: "call_event \<Rightarrow> bool" where
  "top_module e = (function_name e = ''<module>'' \<and> parent_call_id e = None)"

definition ids_ok :: "debugger \<Rightarrow> bool" where
  "ids_ok s =
     ((\<forall>e \<in> set (call_event_log s). call_id e \<le> call_id_counter s)
      \<and> (\<forall>c \<in> set (active_call_ids_stack s). c \<le> call_id_counter s)
      \<and> distinct (map call_id (filter is_call (call_event_log s)))
      \<and> (\<forall>e \<in> set (call_event_log s). \<forall>e' \<in> set (call_event_log s).
            \<not> is_call e \<and> is_call e' \<and> call_id e' = call_id e \<longrightarrow> \<not> top_module e'))"


section \<open>The call event log: the return hook on an empty stack\<close>

text \<open>
  Claim C10. For every session state, the return hook invoked while the stack of active call ids
  is empty changes nothing: the state it leaves is the state it found, so no call event is
  appended, neither stack changes and the call-id counter keeps its value.
\<close>

theorem user_return_empty_stack_noop:
  "active_call_ids_stack s = [] \<Longrightarrow> user_return E d h s fr return_value = s"
  by (simp add: user_return_def)

theorem user_return_empty_stack_noop_witness:
  "active_call_ids_stack (reset_internal_debugger_state (HostStream 0)) = []
   \<and> user_return host_env 0 zero_heap (reset_internal_debugger_state (HostStream 0)) frame_f 0
       = reset_internal_debugger_state (HostStream 0)"
proof -
  have e: "active_call_ids_stack (reset_internal_debugger_state (HostStream 0)) = []"
    by (simp add: reset_internal_debugger_state_def)
  show ?thesis
    using e user_return_empty_stack_noop [OF e, of host_env 0 zero_heap frame_f 0] by simp
qed

section \<open>The call event log: returns follow their calls\<close>

lemma is_call_simps [simp]:
  "is_call (CallEvent c p f a l t) = True"
  "is_call (ReturnEvent c r t) = False"
  by (simp_all add: is_call_def)

lemma call_ids_of_append [simp]: "call_ids_of (xs @ ys) = call_ids_of xs \<union> call_ids_of ys"
  by (auto simp: call_ids_of_def)

lemma call_ids_of_simps [simp]:
  "call_ids_of [] = {}"
  "call_ids_of (CallEvent c p f a l t # es) = insert c (call_ids_of es)"
  "call_ids_of (ReturnEvent c r t # es) = call_ids_of es"
  by (auto simp: call_ids_of_def)

lemma matched_append:
  "matched seen (xs @ ys) = (matched seen xs \<and> matched (seen \<union> call_ids_of xs) ys)"
  by (induction seen xs rule: matched.induct) (auto simp: insert_commute Un_commute)

lemma matched_nth:
  "matched seen evs \<Longrightarrow> i < length evs \<Longrightarrow> evs ! i = ReturnEvent c r t \<Longrightarrow>
     c \<in> seen \<or> (\<exists>j<i. \<exists>p f a l t'. evs ! j = CallEvent c p f a l t')"
proof (induction seen evs arbitrary: i rule: matched.induct)
  case (1 seen)
  then show ?case by simp
next
  case (2 seen c' p f a l t' es)
  from 2(3,4) obtain k where k: "i = Suc k" by (cases i) auto
  with 2 have "c \<in> insert c' seen \<or> (\<exists>j<k. \<exists>p f a l t'. es ! j = CallEvent c p f a l t')"
    by auto
  then show ?case
  proof (elim disjE)
    assume "c \<in> insert c' seen"
    then show ?thesis using k by (cases "c = c'") (auto intro: exI[of _ 0])
  next
    assume "\<exists>j<k. \<exists>p f a l t'. es ! j = CallEvent c p f a l t'"
    then obtain j where "j < k" "\<exists>p f a l t'. es ! j = CallEvent c p f a l t'" by blast
    then show ?thesis using k by (auto intro!: exI[of _ "Suc j"])
  qed
next
  case (3 seen c' r' t' es)
  show ?case
  proof (cases i)
    case 0
    with 3 show ?thesis by auto
  next
    case (Suc k)
    with 3 have "c \<in> seen \<or> (\<exists>j<k. \<exists>p f a l t'. es ! j = CallEvent c p f a l t')" by auto
    then show ?thesis
    proof (elim disjE)
      assume "c \<in> seen" then show ?thesis by simp
    next
      assume "\<exists>j<k. \<exists>p f a l t'. es ! j = CallEvent c p f a l t'"
      then obtain j where "j < k" "\<exists>p f a l t'. es ! j = CallEvent c p f a l t'" by blast
      then show ?thesis using Suc by (auto intro!: exI[of _ "Suc j"])
    qed
  qed
qed

lemma user_call_log_ok: "log_ok s \<Longrightarrow> log_ok (user_call E d h s fr)"
  by (auto simp: user_call_def Let_def log_ok_def matched_append split: sum.splits)

lemma user_return_log_cases:
  "call_event_log (user_return E d h s fr rv) = call_event_log s
   \<or> (logged_call_ids_stack s \<noteq> []
      \<and> (\<exists>r t. call_event_log (user_return E d h s fr rv)
                  = call_event_log s @ [ReturnEvent (last (logged_call_ids_stack s)) r t]))"
  by (auto simp: user_return_def Let_def split: sum.splits option.splits)

lemma user_return_logged_subset:
  "set (logged_call_ids_stack (user_return E d h s fr rv)) \<subseteq> set (logged_call_ids_stack s)"
  by (auto simp: user_return_def Let_def split: sum.splits option.splits dest: in_set_butlastD)

lemma user_return_log_ok:
  assumes "log_ok s"
  shows "log_ok (user_return E d h s fr rv)"
proof -
  let ?s' = "user_return E d h s fr rv"
  from assms have m: "matched {} (call_event_log s)"
    and sub: "set (logged_call_ids_stack s) \<subseteq> call_ids_of (call_event_log s)"
    by (simp_all add: log_ok_def)
  have sub': "set (logged_call_ids_stack ?s') \<subseteq> call_ids_of (call_event_log s)"
    using user_return_logged_subset [of E d h s fr rv] sub by blast
  from user_return_log_cases [of E d h s fr rv] show ?thesis
  proof (elim disjE conjE exE)
    assume "call_event_log ?s' = call_event_log s"
    with m sub' show ?thesis by (simp add: log_ok_def)
  next
    fix r t
    assume ne: "logged_call_ids_stack s \<noteq> []"
      and eq: "call_event_log ?s' = call_event_log s @ [ReturnEvent (last (logged_call_ids_stack s)) r t]"
    from ne sub have "last (logged_call_ids_stack s) \<in> call_ids_of (call_event_log s)"
      using last_in_set by blast
    with m sub' eq show ?thesis by (simp add: log_ok_def matched_append)
  qed
qed

lemma user_line_log: "call_event_log (user_line E d h tb s fr callers) = call_event_log s"
  "logged_call_ids_stack (user_line E d h tb s fr callers) = logged_call_ids_stack s"
  by (simp_all add: user_line_def Let_def split: sum.splits)

lemma mock_log: "call_event_log (snd (one_time_input_mock s p)) = call_event_log s"
  "logged_call_ids_stack (snd (one_time_input_mock s p)) = logged_call_ids_stack s"
  by (simp_all add: one_time_input_mock_def custom_input_handler_def Let_def split: option.splits)

lemma trace_dispatch_log_ok: "log_ok s \<Longrightarrow> log_ok (trace_dispatch E ev s)"
proof (cases ev)
  case (OnLine fr callers h d tb)
  assume "log_ok s"
  then show ?thesis using OnLine by (simp add: trace_dispatch_def log_ok_def user_line_log)
next
  case (OnCall fr h d)
  assume "log_ok s"
  then show ?thesis using OnCall by (simp add: trace_dispatch_def user_call_log_ok)
next
  case (OnReturn fr rv h d)
  assume "log_ok s"
  then show ?thesis using OnReturn by (simp add: trace_dispatch_def user_return_log_ok)
next
  case (OnInput prompt)
  assume "log_ok s"
  then show ?thesis using OnInput by (simp add: trace_dispatch_def log_ok_def mock_log)
qed

lemma run_hooks_log_ok: "log_ok s \<Longrightarrow> log_ok (run_hooks E evs s)"
  by (induction evs arbitrary: s) (simp_all add: trace_dispatch_log_ok)

lemma handle_outcome_log:
  "call_event_log (fst (handle_outcome E oc s)) = call_event_log s"
  by (cases oc) (simp_all add: handle_outcome_def Let_def)

lemma finalize_log:
  "finalize d h ns oc ei s = Inr s' \<Longrightarrow> call_event_log s' = call_event_log s"
  by (auto simp: finalize_def Let_def split: sum.splits option.splits prod.splits if_splits)

lemma run_try_state:
  "snd (run_try E b s)
     = (case b of SyntaxInvalid se \<Rightarrow> s | Executes evs fin \<Rightarrow> run_hooks E evs s)"
  by (cases b) (simp_all add: run_try_def)

lemma run_try_log_ok: "log_ok s \<Longrightarrow> log_ok (snd (run_try E b s))"
  by (cases b) (simp_all add: run_try_state run_hooks_log_ok)

lemma start_run_log_ok: "log_ok (start_run H c i p)"
  by (simp add: start_run_def reset_internal_debugger_state_def log_ok_def)

lemma run_debugger_log:
  "call_event_log (fst (snd (run_debugger E H c i p b fv)))
     = call_event_log (snd (run_try E b (start_run H c i p)))"
proof -
  obtain oc s1 where rt: "run_try E b (start_run H c i p) = (oc, s1)" by (cases "run_try E b (start_run H c i p)")
  obtain s2 ei where ho: "handle_outcome E oc s1 = (s2, ei)" by (cases "handle_outcome E oc s1")
  have l2: "call_event_log s2 = call_event_log s1"
    using handle_outcome_log [of E oc s1] ho by simp
  show ?thesis
  proof (cases "finalize (final_depth fv) (final_heap fv) (final_namespace fv) oc ei s2")
    case (Inl e)
    with rt ho l2 show ?thesis by (simp add: run_debugger_def Let_def)
  next
    case (Inr s3)
    with finalize_log [OF Inr] rt ho l2 show ?thesis
      by (cases oc) (simp_all add: run_debugger_def Let_def)
  qed
qed

text \<open>
  Claim C3. In the call event log a run leaves, every return record stands after a call record
  of the same call id: a return record never comes before its call record and never names a
  call id that was not logged.
\<close>

theorem return_records_follow_their_call:
  assumes "run_debugger E H code_str input_to_inject previous_inputs_list b fv = (H', s', r)"
    and "i < length (call_event_log s')"
    and "call_event_log s' ! i = ReturnEvent c rv t"
  shows "\<exists>j<i. \<exists>p f a l t'. call_event_log s' ! j = CallEvent c p f a l t'"
proof -
  have "log_ok (snd (run_try E b (start_run H code_str input_to_inject previous_inputs_list)))"
    by (rule run_try_log_ok [OF start_run_log_ok])
  moreover have "call_event_log s'
      = call_event_log (snd (run_try E b (start_run H code_str input_to_inject previous_inputs_list)))"
    using run_debugger_log [of E H code_str input_to_inject previous_inputs_list b fv] assms(1) by simp
  ultimately have "matched {} (call_event_log s')" by (simp add: log_ok_def)
  from matched_nth [OF this assms(2,3)] show ?thesis by simp
qed

lemma call_and_return_log:
  "call_event_log (snd (run_try host_env call_and_return (start_run host0 [] None [])))
     = [CallEvent 1 None ''f'' [] 1 0, ReturnEvent 1 ''0'' 0]"
  by (simp add: call_and_return_def run_try_def trace_dispatch_def start_run_def
      reset_internal_debugger_state_def user_call_def user_return_def Let_def frame_f_def host_env_def is_debugger_internal_def
      is_bdb_internal_def frame_function_name_def basename_def startswith_def
      get_frame_args_and_values_def varargs_repr_def varkw_repr_def safe_repr.simps zero_heap_def
      int_zero_def host0_def debugger_internal_methods_def)

lemma call_and_return_final_log:
  "call_event_log (fst (snd (run_debugger host_env host0 [] None [] call_and_return empty_view)))
     = [CallEvent 1 None ''f'' [] 1 0, ReturnEvent 1 ''0'' 0]"
  by (simp add: run_debugger_log call_and_return_log)

theorem return_records_follow_their_call_witness:
  "1 < length (call_event_log (fst (snd (run_debugger host_env host0 [] None [] call_and_return empty_view))))
   \<and> call_event_log (fst (snd (run_debugger host_env host0 [] None [] call_and_return empty_view))) ! 1
       = ReturnEvent 1 ''0'' 0
   \<and> (\<exists>j<1. \<exists>p f a l t'.
         call_event_log (fst (snd (run_debugger host_env host0 [] None [] call_and_return empty_view))) ! j
           = CallEvent 1 p f a l t')"
proof -
  let ?R = "run_debugger host_env host0 [] None [] call_and_return empty_view"
  have r: "?R = (fst ?R, fst (snd ?R), snd (snd ?R))" by simp
  have i: "1 < length (call_event_log (fst (snd ?R)))" by (simp add: call_and_return_final_log)
  have e: "call_event_log (fst (snd ?R)) ! 1 = ReturnEvent 1 ''0'' 0"
    by (simp add: call_and_return_final_log)
  from return_records_follow_their_call [OF r i e] i e show ?thesis by blast
qed

section \<open>The session: the bindings of the host\<close>









section \<open>The session: the step indices\<close>

lemma bfs_loop_empty: "queue_bfs st = [] \<Longrightarrow> bfs_loop h st = st"
  by (simp add: bfs_loop.simps)

lemma extract_no_candidates:
  "\<forall>(n, a) \<in> set vars. \<not> is_visualizable_candidate h a \<Longrightarrow> extract_visualizables d h vars = []"
proof -
  assume a: "\<forall>(n, a) \<in> set vars. \<not> is_visualizable_candidate h a"
  have "fold (seed_step h) vars st = st" for st
    using a by (induction vars arbitrary: st) (auto simp: seed_step_def)
  then show ?thesis
    by (simp add: extract_visualizables_def seed_def bfs_loop_empty)
qed

lemma zero_not_candidate: "\<not> is_visualizable_candidate zero_heap a"
  by (simp add: is_visualizable_candidate_def zero_heap_def int_zero_def)

text \<open>
  Claim C7 says that the step indices of the trace of every run are strictly increasing and
  contiguous from 0. The code breaks it. The clause \<^verbatim>\<open>except SyntaxError\<close> of \<^verbatim>\<open>run_debugger\<close>
  gives its record the step index 0, as if the error could only come from compiling the
  submission before any step; it also catches a \<^verbatim>\<open>SyntaxError\<close> raised while the program
  runs, after steps were recorded. (The clause \<^verbatim>\<open>except Exception\<close> beside it takes
  \<^verbatim>\<open>self.current_step\<close>.) For the submission \<^verbatim>\<open>x = 0\<close>, \<^verbatim>\<open>eval('1 +')\<close> the trace has the step
  indices 0, 1, 0.
\<close>

theorem runtime_syntax_error_restarts_step_index:
  "map step (execution_trace (fst (snd
      (run_debugger host_env host0 eval_src None [] eval_fails eval_view)))) = [0, 1, 0]"
  by (simp add: run_debugger_def run_try_def eval_fails_def handle_outcome_def finalize_def eval_view_def
      trace_dispatch_def start_run_def reset_internal_debugger_state_def user_line_def
      user_return_def capture_step_def
      extract_no_candidates zero_not_candidate frame_module_def frame_f_def frame_line2_def host_env_def
      is_bdb_internal_def basename_def startswith_def Let_def display_vars_def dict_merge_def
      displayable_def safe_repr.simps zero_heap_def int_zero_def is_visualizable_candidate_def
      split: sum.splits)

section \<open>The traceback sanitizer: labels for paths\<close>

lemma group_tb_kept: "sanitize_traceback_paths host_env group_tb True = group_tb"
  by code_simp

lemma group_tb_second_line: "splitlines group_tb ! 1 = group_frame_line"
  by code_simp

text \<open>
  Claim C9 says that the sanitizer rewrites the file reference of every frame-location line
  after the first line, so that no absolute path is left in one. The code breaks it. It takes a
  line for a frame-location line only when the line begins with \<^verbatim>\<open>File "\<close> once the blanks
  around it are stripped; the frame-location lines of an exception group begin with the margin
  \<^verbatim>\<open>|\<close>, are not rewritten, and keep their path. For the traceback of
  \<^verbatim>\<open>raise ExceptionGroup('x', [ValueError(1)])\<close> the sanitized text is the raw text, and its
  second line names the tracer's file by its absolute path.
\<close>

theorem exception_group_frame_keeps_its_path:
  "sanitize_traceback_paths host_env group_tb True = group_tb
   \<and> splitlines (sanitize_traceback_paths host_env group_tb True) ! 1
       = ''  |   File '' @ [CHR 0x22] @ ''/srv/app/a.py'' @ [CHR 0x22] @ '', line 759, in run_debugger''"
  by (simp only: group_tb_kept group_tb_second_line) (simp add: group_frame_line_def)

end
